theory Spec2Isabelle
  imports Complex_Main
begin

section \<open>Values\<close>

text \<open>
  The service (\<^verbatim>\<open>src/app.py\<close>) receives JSON objects, reads their fields with
  \<^verbatim>\<open>data.get\<close>, and hands the values to SQLite as statement parameters.  A JSON value
  is the Python value \<^verbatim>\<open>request.json\<close> yields: \<^verbatim>\<open>None\<close>, a bool, an unbounded int,
  a float (modelled by the real number it denotes; rounding, NaN and infinities are outside
  the model), a string, a list or a dict.  A Python \<^verbatim>\<open>str\<close> is a sequence of code points
  and may hold a lone surrogate, which \<^verbatim>\<open>json.loads\<close> yields for an escape such as
  \<^verbatim>\<open>"\ud800"\<close>; such a string has no UTF-8 encoding.  \<open>JStr\<close> is a string that can be
  encoded, \<open>JSurrogates\<close> one that cannot, given by its code points.
\<close>

datatype json =
    JNull
  | JBool bool
  | JInt int
  | JReal real
  | JStr string
  | JSurrogates "nat list"
  | JArr "json list"
  | JObj "(string \<times> json) list"

text \<open>The request body is a JSON object, that is a Python dict.\<close>

type_synonym dict = "string \<rightharpoonup> json"

text \<open>\<^verbatim>\<open>data.get(k)\<close> is \<^verbatim>\<open>None\<close> for a missing key; \<^verbatim>\<open>data.get(k, d)\<close> is \<^verbatim>\<open>d\<close>.\<close>

definition get :: "dict \<Rightarrow> string \<Rightarrow> json" where
  "get data k = (case data k of None \<Rightarrow> JNull | Some v \<Rightarrow> v)"

definition get_default :: "dict \<Rightarrow> string \<Rightarrow> json \<Rightarrow> json" where
  "get_default data k d = (case data k of None \<Rightarrow> d | Some v \<Rightarrow> v)"

text \<open>Python's truth value, as tested by \<^verbatim>\<open>if not name\<close>.\<close>

fun truthy :: "json \<Rightarrow> bool" where
  "truthy JNull = False"
| "truthy (JBool b) = b"
| "truthy (JInt n) = (n \<noteq> 0)"
| "truthy (JReal r) = (r \<noteq> 0)"
| "truthy (JStr s) = (s \<noteq> [])"
| "truthy (JSurrogates cps) = (cps \<noteq> [])"
| "truthy (JArr xs) = (xs \<noteq> [])"
| "truthy (JObj kvs) = (kvs \<noteq> [])"

text \<open>The four storage classes of SQLite that the service can produce.\<close>

datatype sqlval = SNull | SInt int | SReal real | SText string

text \<open>
  What \<^verbatim>\<open>cursor.execute\<close> can raise.  Every exception class of the \<^verbatim>\<open>sqlite3\<close> module
  derives from \<^verbatim>\<open>sqlite3.Error\<close>, which the handlers catch; its argument is the message
  \<^verbatim>\<open>str(e)\<close>.  \<^verbatim>\<open>OverflowError\<close>, \<^verbatim>\<open>UnicodeEncodeError\<close>, \<^verbatim>\<open>TypeError\<close> and \<^verbatim>\<open>KeyError\<close>
  are built-in exceptions, which no handler catches.
\<close>

datatype exn = sqlite3_Error string | OverflowError | UnicodeEncodeError | TypeError | KeyError

fun show_nat :: "nat \<Rightarrow> string" where
  "show_nat n =
     (if n < 10 then [char_of (48 + n)]
      else show_nat (n div 10) @ [char_of (48 + n mod 10)])"

declare show_nat.simps [simp del]

text \<open>
  Binding one Python value to the \<open>i\<close>-th placeholder (the module's default adapters):
  \<^verbatim>\<open>None\<close> is NULL, a bool is the integer 0 or 1, an int must fit SQLite's signed 64-bit
  INTEGER (otherwise \<^verbatim>\<open>OverflowError: Python int too large to convert to SQLite INTEGER\<close>),
  a float is REAL, a str is TEXT and is encoded as UTF-8 (a lone surrogate raises
  \<^verbatim>\<open>UnicodeEncodeError\<close>); a list or a dict is not supported and raises a
  \<^verbatim>\<open>sqlite3.Error\<close> (the message is that of CPython up to 3.10).
\<close>

fun bind_param :: "nat \<Rightarrow> json \<Rightarrow> exn + sqlval" where
  "bind_param i JNull = Inr SNull"
| "bind_param i (JBool b) = Inr (SInt (if b then 1 else 0))"
| "bind_param i (JInt n) =
     (if - (2 ^ 63) \<le> n \<and> n < 2 ^ 63 then Inr (SInt n) else Inl OverflowError)"
| "bind_param i (JReal r) = Inr (SReal r)"
| "bind_param i (JStr s) = Inr (SText s)"
| "bind_param i (JSurrogates cps) = Inl UnicodeEncodeError"
| "bind_param i (JArr xs) =
     Inl (sqlite3_Error (''Error binding parameter '' @ show_nat i @ '' - probably unsupported type.''))"
| "bind_param i (JObj kvs) =
     Inl (sqlite3_Error (''Error binding parameter '' @ show_nat i @ '' - probably unsupported type.''))"

text \<open>The parameters are bound from left to right; the first failure is raised.\<close>

fun bind_parameters :: "nat \<Rightarrow> json list \<Rightarrow> exn + sqlval list" where
  "bind_parameters i [] = Inr []"
| "bind_parameters i (p # ps) =
     (case bind_param i p of
        Inl ex \<Rightarrow> Inl ex
      | Inr v \<Rightarrow>
          (case bind_parameters (Suc i) ps of
             Inl ex \<Rightarrow> Inl ex
           | Inr vs \<Rightarrow> Inr (v # vs)))"

text \<open>Reading a stored value back into Python and into the JSON response.\<close>

fun json_of :: "sqlval \<Rightarrow> json" where
  "json_of SNull = JNull"
| "json_of (SInt n) = JInt n"
| "json_of (SReal r) = JReal r"
| "json_of (SText s) = JStr s"


section \<open>The store\<close>

subsection \<open>Column affinity\<close>

text \<open>
  SQLite converts a value to the affinity of the column that receives it.  The declared
  types of \<^verbatim>\<open>init_db\<close> give: \<^verbatim>\<open>TEXT\<close> columns TEXT affinity, \<^verbatim>\<open>INTEGER\<close> columns INTEGER
  affinity, \<^verbatim>\<open>REAL\<close> REAL affinity and \<^verbatim>\<open>BOOLEAN\<close> NUMERIC affinity.  How SQLite prints a
  number as text and reads a numeric literal from text is a parameter of the model.
\<close>

datatype affinity = A_TEXT | A_NUMERIC | A_INTEGER | A_REAL

record conversions =
  text_of_number :: "sqlval \<Rightarrow> string"
  number_of_text :: "string \<Rightarrow> sqlval option"

text \<open>A REAL that is exactly an integer strictly inside the 64-bit range becomes an INTEGER.\<close>

fun integer_if_exact :: "sqlval \<Rightarrow> sqlval" where
  "integer_if_exact (SReal r) =
     (if r = of_int \<lfloor>r\<rfloor> \<and> - (2 ^ 63) < \<lfloor>r\<rfloor> \<and> \<lfloor>r\<rfloor> < 2 ^ 63 - 1 then SInt \<lfloor>r\<rfloor> else SReal r)"
| "integer_if_exact v = v"

fun numeric :: "conversions \<Rightarrow> sqlval \<Rightarrow> sqlval" where
  "numeric cv (SText s) =
     (case number_of_text cv s of None \<Rightarrow> SText s | Some n \<Rightarrow> integer_if_exact n)"
| "numeric cv v = integer_if_exact v"

fun apply_affinity :: "conversions \<Rightarrow> affinity \<Rightarrow> sqlval \<Rightarrow> sqlval" where
  "apply_affinity cv A_TEXT (SInt n) = SText (text_of_number cv (SInt n))"
| "apply_affinity cv A_TEXT (SReal r) = SText (text_of_number cv (SReal r))"
| "apply_affinity cv A_TEXT v = v"
| "apply_affinity cv A_REAL v =
     (case numeric cv v of SInt n \<Rightarrow> SReal (of_int n) | v' \<Rightarrow> v')"
| "apply_affinity cv A_NUMERIC v = numeric cv v"
| "apply_affinity cv A_INTEGER v = numeric cv v"

subsection \<open>Tables\<close>

text \<open>
  The two tables of \<^verbatim>\<open>init_db\<close>, each a list of rows in insertion order.  Both keys
  are \<^verbatim>\<open>INTEGER PRIMARY KEY AUTOINCREMENT\<close>: SQLite keeps, per table, the largest key it
  has ever assigned (table \<^verbatim>\<open>sqlite_sequence\<close>), here \<open>seq_players\<close> and \<open>seq_matches\<close>.
\<close>

record player_row =
  p_id :: int
  name :: sqlval
  role :: sqlval
  batting_style :: sqlval
  bowling_style :: sqlval

record match_row =
  m_id :: int
  player_id :: sqlval
  did_bat :: sqlval
  runs :: sqlval
  balls :: sqlval
  wickets :: sqlval
  overs :: sqlval
  conceded :: sqlval
  catches :: sqlval
  stumpings :: sqlval
  run_outs :: sqlval

record database =
  players :: "player_row list"
  matches :: "match_row list"
  seq_players :: int
  seq_matches :: int

definition empty_database :: database where
  "empty_database = \<lparr>players = [], matches = [], seq_players = 0, seq_matches = 0\<rparr>"

text \<open>A result row (\<^verbatim>\<open>sqlite3.Row\<close>) lists the columns by name; \<^verbatim>\<open>dict(row)\<close> keeps them.\<close>

type_synonym row = "(string \<times> sqlval) list"

definition player_columns :: "player_row \<Rightarrow> row" where
  "player_columns p =
     [(''id'', SInt (p_id p)), (''name'', name p), (''role'', role p),
      (''batting_style'', batting_style p), (''bowling_style'', bowling_style p)]"

definition match_columns :: "match_row \<Rightarrow> row" where
  "match_columns m =
     [(''id'', SInt (m_id m)), (''player_id'', player_id m), (''did_bat'', did_bat m),
      (''runs'', runs m), (''balls'', balls m), (''wickets'', wickets m),
      (''overs'', overs m), (''conceded'', conceded m), (''catches'', catches m),
      (''stumpings'', stumpings m), (''run_outs'', run_outs m)]"

definition dict_of_row :: "row \<Rightarrow> json" where
  "dict_of_row r = JObj (map (\<lambda>(k, v). (k, json_of v)) r)"

subsection \<open>Statements\<close>

text \<open>The SQL statements that occur in the handlers, named by their text.\<close>

datatype statement =
    INSERT_INTO_players
  | SELECT_FROM_players
  | SELECT_FROM_players_WHERE_id
  | SELECT_id_FROM_players_WHERE_id
  | UPDATE_players
  | DELETE_FROM_players
  | INSERT_INTO_matches
  | SELECT_FROM_matches_WHERE_player_id
  | SELECT_FROM_matches_WHERE_id
  | UPDATE_matches
  | DELETE_FROM_matches

fun is_write :: "statement \<Rightarrow> bool" where
  "is_write INSERT_INTO_players = True"
| "is_write UPDATE_players = True"
| "is_write DELETE_FROM_players = True"
| "is_write INSERT_INTO_matches = True"
| "is_write UPDATE_matches = True"
| "is_write DELETE_FROM_matches = True"
| "is_write s = False"

text \<open>
  What a cursor holds after \<^verbatim>\<open>execute\<close>: \<^verbatim>\<open>rowcount\<close> (the rows changed by an INSERT,
  UPDATE or DELETE, not counting cascaded rows; -1 after a SELECT), \<^verbatim>\<open>lastrowid\<close> (set
  by an INSERT) and the rows to fetch.
\<close>

record cursor =
  rowcount :: int
  lastrowid :: "int option"
  fetched :: "row list"

definition fetchone :: "cursor \<Rightarrow> row option" where
  "fetchone c = (case fetched c of [] \<Rightarrow> None | r # _ \<Rightarrow> Some r)"

definition fetchall :: "cursor \<Rightarrow> row list" where
  "fetchall c = fetched c"

definition changed :: "nat \<Rightarrow> cursor" where
  "changed n = \<lparr>rowcount = int n, lastrowid = None, fetched = []\<rparr>"

definition inserted :: "int \<Rightarrow> cursor" where
  "inserted rid = \<lparr>rowcount = 1, lastrowid = Some rid, fetched = []\<rparr>"

definition selected :: "row list \<Rightarrow> cursor" where
  "selected rs = \<lparr>rowcount = - 1, lastrowid = None, fetched = rs\<rparr>"

text \<open>
  AUTOINCREMENT: the new key is one more than the largest key ever assigned in the table
  (or present in it); when that is the largest 64-bit integer the INSERT fails.
\<close>

definition new_rowid :: "int \<Rightarrow> int list \<Rightarrow> string + int" where
  "new_rowid seq ids =
     (let m = fold max ids seq
      in if 2 ^ 63 - 1 \<le> m then Inl ''database or disk is full'' else Inr (m + 1))"

definition wrong_arity :: string where
  "wrong_arity = ''Incorrect number of bindings supplied.''"

text \<open>
  \<^verbatim>\<open>INSERT INTO players (name, role, batting_style, bowling_style) VALUES (?, ?, ?, ?)\<close>;
  \<^verbatim>\<open>name\<close> is \<^verbatim>\<open>TEXT NOT NULL\<close>.
\<close>

definition insert_into_players ::
  "conversions \<Rightarrow> sqlval list \<Rightarrow> database \<Rightarrow> string + database \<times> cursor" where
  "insert_into_players cv vs db =
     (case vs of
        [n, r, bat, bowl] \<Rightarrow>
          (case new_rowid (seq_players db) (map p_id (players db)) of
             Inl e \<Rightarrow> Inl e
           | Inr rid \<Rightarrow>
               if apply_affinity cv A_TEXT n = SNull
               then Inl ''NOT NULL constraint failed: players.name''
               else Inr (db\<lparr>players := players db @
                              [\<lparr>p_id = rid,
                                name = apply_affinity cv A_TEXT n,
                                role = apply_affinity cv A_TEXT r,
                                batting_style = apply_affinity cv A_TEXT bat,
                                bowling_style = apply_affinity cv A_TEXT bowl\<rparr>],
                            seq_players := rid\<rparr>,
                         inserted rid))
      | _ \<Rightarrow> Inl wrong_arity)"

text \<open>\<^verbatim>\<open>SELECT * FROM players\<close>\<close>

definition select_from_players :: "sqlval list \<Rightarrow> database \<Rightarrow> string + database \<times> cursor" where
  "select_from_players vs db =
     (case vs of
        [] \<Rightarrow> Inr (db, selected (map player_columns (players db)))
      | _ \<Rightarrow> Inl wrong_arity)"

text \<open>\<^verbatim>\<open>SELECT * FROM players WHERE id = ?\<close>\<close>

definition select_from_players_where_id ::
  "sqlval list \<Rightarrow> database \<Rightarrow> string + database \<times> cursor" where
  "select_from_players_where_id vs db =
     (case vs of
        [i] \<Rightarrow> Inr (db, selected (map player_columns (filter (\<lambda>p. SInt (p_id p) = i) (players db))))
      | _ \<Rightarrow> Inl wrong_arity)"

text \<open>\<^verbatim>\<open>SELECT id FROM players WHERE id = ?\<close>\<close>

definition select_id_from_players_where_id ::
  "sqlval list \<Rightarrow> database \<Rightarrow> string + database \<times> cursor" where
  "select_id_from_players_where_id vs db =
     (case vs of
        [i] \<Rightarrow> Inr (db, selected (map (\<lambda>p. [(''id'', SInt (p_id p))])
                                     (filter (\<lambda>p. SInt (p_id p) = i) (players db))))
      | _ \<Rightarrow> Inl wrong_arity)"

text \<open>
  \<^verbatim>\<open>UPDATE players SET name=?, role=?, batting_style=?, bowling_style=? WHERE id=?\<close>.
  The NOT NULL constraint is checked on the rows the statement changes, so it cannot fail
  when no row has the id.
\<close>

definition update_players ::
  "conversions \<Rightarrow> sqlval list \<Rightarrow> database \<Rightarrow> string + database \<times> cursor" where
  "update_players cv vs db =
     (case vs of
        [n, r, bat, bowl, i] \<Rightarrow>
          if list_ex (\<lambda>p. SInt (p_id p) = i) (players db) \<and> apply_affinity cv A_TEXT n = SNull
          then Inl ''NOT NULL constraint failed: players.name''
          else Inr (db\<lparr>players :=
                         map (\<lambda>p. if SInt (p_id p) = i
                                   then p\<lparr>name := apply_affinity cv A_TEXT n,
                                          role := apply_affinity cv A_TEXT r,
                                          batting_style := apply_affinity cv A_TEXT bat,
                                          bowling_style := apply_affinity cv A_TEXT bowl\<rparr>
                                   else p)
                             (players db)\<rparr>,
                    changed (length (filter (\<lambda>p. SInt (p_id p) = i) (players db))))
      | _ \<Rightarrow> Inl wrong_arity)"

text \<open>
  \<^verbatim>\<open>DELETE FROM players WHERE id = ?\<close>.  The \<^verbatim>\<open>matches\<close> table declares
  \<^verbatim>\<open>FOREIGN KEY (player_id) REFERENCES players(id) ON DELETE CASCADE\<close>.  SQLite enforces
  foreign keys, and so runs the cascade, only on a connection where
  \<^verbatim>\<open>PRAGMA foreign_keys = ON\<close> has been issued (the flag \<open>fk\<close>); it is off on a new
  connection.
\<close>

definition delete_from_players ::
  "bool \<Rightarrow> sqlval list \<Rightarrow> database \<Rightarrow> string + database \<times> cursor" where
  "delete_from_players fk vs db =
     (case vs of
        [i] \<Rightarrow>
          Inr (db\<lparr>players := filter (\<lambda>p. SInt (p_id p) \<noteq> i) (players db),
                  matches := (if fk \<and> list_ex (\<lambda>p. SInt (p_id p) = i) (players db)
                              then filter (\<lambda>m. player_id m \<noteq> i) (matches db)
                              else matches db)\<rparr>,
               changed (length (filter (\<lambda>p. SInt (p_id p) = i) (players db))))
      | _ \<Rightarrow> Inl wrong_arity)"

text \<open>
  \<^verbatim>\<open>INSERT INTO matches (player_id, did_bat, runs, balls, wickets, overs, conceded,
  catches, stumpings, run_outs) VALUES (?, ?, ?, ?, ?, ?, ?, ?, ?, ?)\<close>;
  \<^verbatim>\<open>player_id\<close> is \<^verbatim>\<open>INTEGER NOT NULL\<close> and, where foreign keys are enforced, must be
  the id of a player.
\<close>

definition insert_into_matches ::
  "conversions \<Rightarrow> bool \<Rightarrow> sqlval list \<Rightarrow> database \<Rightarrow> string + database \<times> cursor" where
  "insert_into_matches cv fk vs db =
     (case vs of
        [pid, bat, r, b, w, ov, con, cat, st, ro] \<Rightarrow>
          (case new_rowid (seq_matches db) (map m_id (matches db)) of
             Inl e \<Rightarrow> Inl e
           | Inr rid \<Rightarrow>
               if apply_affinity cv A_INTEGER pid = SNull
               then Inl ''NOT NULL constraint failed: matches.player_id''
               else if fk \<and> \<not> list_ex (\<lambda>p. SInt (p_id p) = apply_affinity cv A_INTEGER pid) (players db)
               then Inl ''FOREIGN KEY constraint failed''
               else Inr (db\<lparr>matches := matches db @
                              [\<lparr>m_id = rid,
                                player_id = apply_affinity cv A_INTEGER pid,
                                did_bat = apply_affinity cv A_NUMERIC bat,
                                runs = apply_affinity cv A_INTEGER r,
                                balls = apply_affinity cv A_INTEGER b,
                                wickets = apply_affinity cv A_INTEGER w,
                                overs = apply_affinity cv A_REAL ov,
                                conceded = apply_affinity cv A_INTEGER con,
                                catches = apply_affinity cv A_INTEGER cat,
                                stumpings = apply_affinity cv A_INTEGER st,
                                run_outs = apply_affinity cv A_INTEGER ro\<rparr>],
                            seq_matches := rid\<rparr>,
                         inserted rid))
      | _ \<Rightarrow> Inl wrong_arity)"

text \<open>\<^verbatim>\<open>SELECT * FROM matches WHERE player_id = ?\<close>\<close>

definition select_from_matches_where_player_id ::
  "sqlval list \<Rightarrow> database \<Rightarrow> string + database \<times> cursor" where
  "select_from_matches_where_player_id vs db =
     (case vs of
        [i] \<Rightarrow> Inr (db, selected (map match_columns
                                     (filter (\<lambda>m. i \<noteq> SNull \<and> player_id m = i) (matches db))))
      | _ \<Rightarrow> Inl wrong_arity)"

text \<open>\<^verbatim>\<open>SELECT * FROM matches WHERE id = ?\<close>\<close>

definition select_from_matches_where_id ::
  "sqlval list \<Rightarrow> database \<Rightarrow> string + database \<times> cursor" where
  "select_from_matches_where_id vs db =
     (case vs of
        [i] \<Rightarrow> Inr (db, selected (map match_columns (filter (\<lambda>m. SInt (m_id m) = i) (matches db))))
      | _ \<Rightarrow> Inl wrong_arity)"

text \<open>
  \<^verbatim>\<open>UPDATE matches SET did_bat=?, runs=?, balls=?, wickets=?, overs=?, conceded=?,
  catches=?, stumpings=?, run_outs=? WHERE id=?\<close>
\<close>

definition update_matches ::
  "conversions \<Rightarrow> sqlval list \<Rightarrow> database \<Rightarrow> string + database \<times> cursor" where
  "update_matches cv vs db =
     (case vs of
        [bat, r, b, w, ov, con, cat, st, ro, i] \<Rightarrow>
          Inr (db\<lparr>matches :=
                    map (\<lambda>m. if SInt (m_id m) = i
                              then m\<lparr>did_bat := apply_affinity cv A_NUMERIC bat,
                                     runs := apply_affinity cv A_INTEGER r,
                                     balls := apply_affinity cv A_INTEGER b,
                                     wickets := apply_affinity cv A_INTEGER w,
                                     overs := apply_affinity cv A_REAL ov,
                                     conceded := apply_affinity cv A_INTEGER con,
                                     catches := apply_affinity cv A_INTEGER cat,
                                     stumpings := apply_affinity cv A_INTEGER st,
                                     run_outs := apply_affinity cv A_INTEGER ro\<rparr>
                              else m)
                        (matches db)\<rparr>,
               changed (length (filter (\<lambda>m. SInt (m_id m) = i) (matches db))))
      | _ \<Rightarrow> Inl wrong_arity)"

text \<open>\<^verbatim>\<open>DELETE FROM matches WHERE id = ?\<close>\<close>

definition delete_from_matches ::
  "sqlval list \<Rightarrow> database \<Rightarrow> string + database \<times> cursor" where
  "delete_from_matches vs db =
     (case vs of
        [i] \<Rightarrow>
          Inr (db\<lparr>matches := filter (\<lambda>m. SInt (m_id m) \<noteq> i) (matches db)\<rparr>,
               changed (length (filter (\<lambda>m. SInt (m_id m) = i) (matches db))))
      | _ \<Rightarrow> Inl wrong_arity)"

fun step ::
  "conversions \<Rightarrow> bool \<Rightarrow> statement \<Rightarrow> sqlval list \<Rightarrow> database \<Rightarrow> string + database \<times> cursor" where
  "step cv fk INSERT_INTO_players vs db = insert_into_players cv vs db"
| "step cv fk SELECT_FROM_players vs db = select_from_players vs db"
| "step cv fk SELECT_FROM_players_WHERE_id vs db = select_from_players_where_id vs db"
| "step cv fk SELECT_id_FROM_players_WHERE_id vs db = select_id_from_players_where_id vs db"
| "step cv fk UPDATE_players vs db = update_players cv vs db"
| "step cv fk DELETE_FROM_players vs db = delete_from_players fk vs db"
| "step cv fk INSERT_INTO_matches vs db = insert_into_matches cv fk vs db"
| "step cv fk SELECT_FROM_matches_WHERE_player_id vs db = select_from_matches_where_player_id vs db"
| "step cv fk SELECT_FROM_matches_WHERE_id vs db = select_from_matches_where_id vs db"
| "step cv fk UPDATE_matches vs db = update_matches cv vs db"
| "step cv fk DELETE_FROM_matches vs db = delete_from_matches vs db"

text \<open>
  Running one statement on a database: the parameters are bound, then the statement runs.
  \<open>fault\<close> is the environment of the request: \<open>Some msg\<close> when the storage fails while
  the request's INSERT, UPDATE or DELETE runs (I/O failure, locked or full database),
  raising \<^verbatim>\<open>sqlite3.OperationalError(msg)\<close>.  A statement that fails changes nothing.
\<close>

definition run_statement ::
  "conversions \<Rightarrow> string option \<Rightarrow> bool \<Rightarrow> statement \<Rightarrow> json list \<Rightarrow> database
     \<Rightarrow> exn + database \<times> cursor" where
  "run_statement cv fault fk s params db =
     (case bind_parameters 0 params of
        Inl ex \<Rightarrow> Inl ex
      | Inr vs \<Rightarrow>
          (case (if is_write s then fault else None) of
             Some msg \<Rightarrow> Inl (sqlite3_Error msg)
           | None \<Rightarrow>
               (case step cv fk s vs db of
                  Inl msg \<Rightarrow> Inl (sqlite3_Error msg)
                | Inr r \<Rightarrow> Inr r)))"


section \<open>Connections\<close>

text \<open>
  The state outside a request: the committed database file, the changes each open
  connection has made and not yet committed, the connections opened so far and those still
  open, and the journal of what was done to the storage.
\<close>

datatype event =
    Connect nat
  | Execute nat statement
  | Commit nat
  | Rollback nat
  | Close nat

record world =
  store :: database
  pending :: "nat \<rightharpoonup> database"
  next_handle :: nat
  open_connections :: "nat list"
  journal :: "event list"

record connection =
  handle :: nat
  foreign_keys :: bool

text \<open>
  \<^verbatim>\<open>get_db_connection\<close>: \<^verbatim>\<open>sqlite3.connect(DATABASE)\<close> and the row factory.  No
  \<^verbatim>\<open>PRAGMA\<close> is issued, so foreign keys are not enforced on the connection.  A new
  connection has no transaction open.
\<close>

definition get_db_connection :: "world \<Rightarrow> connection \<times> world" where
  "get_db_connection w =
     (\<lparr>handle = next_handle w, foreign_keys = False\<rparr>,
      w\<lparr>pending := (pending w)(next_handle w := None),
        next_handle := Suc (next_handle w),
        open_connections := next_handle w # open_connections w,
        journal := journal w @ [Connect (next_handle w)]\<rparr>)"

text \<open>What a connection sees: its own uncommitted changes, else the committed store.\<close>

definition conn_view :: "connection \<Rightarrow> world \<Rightarrow> database" where
  "conn_view conn w = (case pending w (handle conn) of None \<Rightarrow> store w | Some db \<Rightarrow> db)"

text \<open>
  \<^verbatim>\<open>conn.execute\<close> / \<^verbatim>\<open>cursor.execute\<close>.  The changes of an INSERT, UPDATE or DELETE
  stay in the connection's transaction until \<^verbatim>\<open>commit\<close>.
\<close>

definition conn_execute ::
  "conversions \<Rightarrow> string option \<Rightarrow> connection \<Rightarrow> statement \<Rightarrow> json list \<Rightarrow> world
     \<Rightarrow> (exn + cursor) \<times> world" where
  "conn_execute cv fault conn s params w =
     (case run_statement cv fault (foreign_keys conn) s params (conn_view conn w) of
        Inl ex \<Rightarrow> (Inl ex, w\<lparr>journal := journal w @ [Execute (handle conn) s]\<rparr>)
      | Inr (db, cur) \<Rightarrow>
          (Inr cur,
           w\<lparr>pending := (if is_write s then (pending w)(handle conn \<mapsto> db) else pending w),
             journal := journal w @ [Execute (handle conn) s]\<rparr>))"

definition conn_commit :: "connection \<Rightarrow> world \<Rightarrow> world" where
  "conn_commit conn w =
     w\<lparr>store := conn_view conn w,
       pending := (pending w)(handle conn := None),
       journal := journal w @ [Commit (handle conn)]\<rparr>"

definition conn_rollback :: "connection \<Rightarrow> world \<Rightarrow> world" where
  "conn_rollback conn w =
     w\<lparr>pending := (pending w)(handle conn := None),
       journal := journal w @ [Rollback (handle conn)]\<rparr>"

text \<open>Closing a connection discards what it has not committed.\<close>

definition conn_close :: "connection \<Rightarrow> world \<Rightarrow> world" where
  "conn_close conn w =
     w\<lparr>pending := (pending w)(handle conn := None),
       open_connections := removeAll (handle conn) (open_connections w),
       journal := journal w @ [Close (handle conn)]\<rparr>"

text \<open>
  \<^verbatim>\<open>init_db\<close>: \<^verbatim>\<open>CREATE TABLE IF NOT EXISTS\<close> creates the two empty tables in a new
  file and leaves an existing file as it is.
\<close>

definition init_db :: "database option \<Rightarrow> world" where
  "init_db file =
     (let w0 = \<lparr>store = (case file of None \<Rightarrow> empty_database | Some db \<Rightarrow> db),
                pending = Map.empty, next_handle = 0, open_connections = [], journal = []\<rparr>;
          (conn, w1) = get_db_connection w0
      in conn_close conn (conn_commit conn w1))"


section \<open>The endpoints\<close>

text \<open>
  What a view function hands to Flask: \<^verbatim>\<open>jsonify(x), code\<close> (code 200 when none is
  given), or an exception that leaves the function, which Flask answers with its own
  500 page.
\<close>

datatype outcome = Response nat json | Unhandled exn

definition message :: "string \<Rightarrow> json" where
  "message m = JObj [(''message'', JStr m)]"

definition error :: "string \<Rightarrow> json" where
  "error m = JObj [(''error'', JStr m)]"

text \<open>
  The clauses that close every \<^verbatim>\<open>try\<close> block of the service:
  \<^verbatim>\<open>except sqlite3.Error as e: conn.rollback(); return jsonify({"error": str(e)}), 500\<close>
  and \<^verbatim>\<open>finally: conn.close()\<close>.  The argument is the result of the \<^verbatim>\<open>try\<close> body.
\<close>

definition except_finally :: "connection \<Rightarrow> (exn + outcome) \<times> world \<Rightarrow> outcome \<times> world" where
  "except_finally conn r =
     (case r of
        (Inr out, w) \<Rightarrow> (out, conn_close conn w)
      | (Inl (sqlite3_Error e), w) \<Rightarrow>
          (Response 500 (error e), conn_close conn (conn_rollback conn w))
      | (Inl ex, w) \<Rightarrow> (Unhandled ex, conn_close conn w))"

text \<open>\<^verbatim>\<open>cursor.lastrowid\<close> as a statement parameter.\<close>

definition rowid_param :: "int option \<Rightarrow> json" where
  "rowid_param r = (case r of None \<Rightarrow> JNull | Some i \<Rightarrow> JInt i)"

text \<open>\<^verbatim>\<open>d = dict(row); d['matches'] = [dict(m) for m in matches_data]\<close>\<close>

definition with_matches :: "row \<Rightarrow> row list \<Rightarrow> json" where
  "with_matches r ms =
     JObj (map (\<lambda>(k, v). (k, json_of v)) r @ [(''matches'', JArr (map dict_of_row ms))])"

subsection \<open>Players\<close>

text \<open>\<^verbatim>\<open>POST /players\<close>\<close>

definition add_player :: "conversions \<Rightarrow> string option \<Rightarrow> dict \<Rightarrow> world \<Rightarrow> outcome \<times> world" where
  "add_player cv fault data w0 =
     (if \<not> truthy (get data ''name'')
      then (Response 400 (error ''Player name is required''), w0)
      else
        (let (conn, w1) = get_db_connection w0
         in except_finally conn
              (case conn_execute cv fault conn INSERT_INTO_players
                      [get data ''name'', get data ''role'', get data ''batting_style'',
                       get data ''bowling_style''] w1 of
                 (Inl ex, w2) \<Rightarrow> (Inl ex, w2)
               | (Inr cursor, w2) \<Rightarrow>
                   (let w3 = conn_commit conn w2;
                        (conn', w4) = get_db_connection w3
                    in case conn_execute cv fault conn' SELECT_FROM_players_WHERE_id
                              [rowid_param (lastrowid cursor)] w4 of
                         (Inl ex, w5) \<Rightarrow> (Inl ex, w5)
                       | (Inr cur, w5) \<Rightarrow>
                           (case fetchone cur of
                              None \<Rightarrow> (Inl TypeError, w5)
                            | Some new_player \<Rightarrow>
                                (Inr (Response 201 (dict_of_row new_player)), w5))))))"

text \<open>\<^verbatim>\<open>GET /players\<close>: the loop over the player rows, one SELECT of matches for each.\<close>

fun players_list ::
  "conversions \<Rightarrow> connection \<Rightarrow> row list \<Rightarrow> world \<Rightarrow> (exn + json list) \<times> world" where
  "players_list cv conn [] w = (Inr [], w)"
| "players_list cv conn (player_row # rest) w =
     (case map_of player_row ''id'' of
        None \<Rightarrow> (Inl KeyError, w)
      | Some i \<Rightarrow>
          (case conn_execute cv None conn SELECT_FROM_matches_WHERE_player_id [json_of i] w of
             (Inl ex, w1) \<Rightarrow> (Inl ex, w1)
           | (Inr cur, w1) \<Rightarrow>
               (case players_list cv conn rest w1 of
                  (Inl ex, w2) \<Rightarrow> (Inl ex, w2)
                | (Inr ps, w2) \<Rightarrow> (Inr (with_matches player_row (fetchall cur) # ps), w2))))"

definition get_players :: "conversions \<Rightarrow> world \<Rightarrow> outcome \<times> world" where
  "get_players cv w0 =
     (let (conn, w1) = get_db_connection w0
      in case conn_execute cv None conn SELECT_FROM_players [] w1 of
           (Inl ex, w2) \<Rightarrow> (Unhandled ex, w2)
         | (Inr cur, w2) \<Rightarrow>
             (case players_list cv conn (fetchall cur) w2 of
                (Inl ex, w3) \<Rightarrow> (Unhandled ex, w3)
              | (Inr ps, w3) \<Rightarrow> (Response 200 (JArr ps), conn_close conn w3)))"

text \<open>\<^verbatim>\<open>GET /players/<int:player_id>\<close>\<close>

definition get_player :: "conversions \<Rightarrow> nat \<Rightarrow> world \<Rightarrow> outcome \<times> world" where
  "get_player cv pid w0 =
     (let (conn, w1) = get_db_connection w0
      in case conn_execute cv None conn SELECT_FROM_players_WHERE_id [JInt (int pid)] w1 of
           (Inl ex, w2) \<Rightarrow> (Unhandled ex, w2)
         | (Inr cur, w2) \<Rightarrow>
             (case fetchone cur of
                None \<Rightarrow> (Response 404 (message ''Player not found''), conn_close conn w2)
              | Some player \<Rightarrow>
                  (case conn_execute cv None conn SELECT_FROM_matches_WHERE_player_id
                          [JInt (int pid)] w2 of
                     (Inl ex, w3) \<Rightarrow> (Unhandled ex, w3)
                   | (Inr cur2, w3) \<Rightarrow>
                       (Response 200 (with_matches player (fetchall cur2)), conn_close conn w3))))"

text \<open>\<^verbatim>\<open>PUT /players/<int:player_id>\<close>\<close>

definition update_player ::
  "conversions \<Rightarrow> string option \<Rightarrow> nat \<Rightarrow> dict \<Rightarrow> world \<Rightarrow> outcome \<times> world" where
  "update_player cv fault pid data w0 =
     (let (conn, w1) = get_db_connection w0
      in except_finally conn
           (case conn_execute cv fault conn UPDATE_players
                   [get data ''name'', get data ''role'', get data ''batting_style'',
                    get data ''bowling_style'', JInt (int pid)] w1 of
              (Inl ex, w2) \<Rightarrow> (Inl ex, w2)
            | (Inr cursor, w2) \<Rightarrow>
                (let w3 = conn_commit conn w2
                 in if rowcount cursor = 0
                    then (Inr (Response 404 (message ''Player not found'')), w3)
                    else
                      (case conn_execute cv fault conn SELECT_FROM_players_WHERE_id
                              [JInt (int pid)] w3 of
                         (Inl ex, w4) \<Rightarrow> (Inl ex, w4)
                       | (Inr cur, w4) \<Rightarrow>
                           (case fetchone cur of
                              None \<Rightarrow> (Inl TypeError, w4)
                            | Some updated_player \<Rightarrow>
                                (Inr (Response 200 (dict_of_row updated_player)), w4))))))"

text \<open>\<^verbatim>\<open>DELETE /players/<int:player_id>\<close>\<close>

definition delete_player :: "conversions \<Rightarrow> string option \<Rightarrow> nat \<Rightarrow> world \<Rightarrow> outcome \<times> world" where
  "delete_player cv fault pid w0 =
     (let (conn, w1) = get_db_connection w0
      in except_finally conn
           (case conn_execute cv fault conn DELETE_FROM_players [JInt (int pid)] w1 of
              (Inl ex, w2) \<Rightarrow> (Inl ex, w2)
            | (Inr cursor, w2) \<Rightarrow>
                (let w3 = conn_commit conn w2
                 in if rowcount cursor = 0
                    then (Inr (Response 404 (message ''Player not found'')), w3)
                    else (Inr (Response 204 (message ''Player deleted successfully'')), w3))))"

subsection \<open>Matches\<close>

text \<open>\<^verbatim>\<open>POST /players/<int:player_id>/matches\<close>\<close>

definition add_match_for_player ::
  "conversions \<Rightarrow> string option \<Rightarrow> nat \<Rightarrow> dict \<Rightarrow> world \<Rightarrow> outcome \<times> world" where
  "add_match_for_player cv fault pid data w0 =
     (let (conn, w1) = get_db_connection w0
      in case conn_execute cv fault conn SELECT_id_FROM_players_WHERE_id [JInt (int pid)] w1 of
           (Inl ex, w2) \<Rightarrow> (Unhandled ex, w2)
         | (Inr found, w2) \<Rightarrow>
             (case fetchone found of
                None \<Rightarrow> (Response 404 (message ''Player not found''), conn_close conn w2)
              | Some player \<Rightarrow>
                  except_finally conn
                    (case conn_execute cv fault conn INSERT_INTO_matches
                            [JInt (int pid),
                             get_default data ''did_bat'' (JBool False),
                             get_default data ''runs'' (JInt 0),
                             get_default data ''balls'' (JInt 0),
                             get_default data ''wickets'' (JInt 0),
                             get_default data ''overs'' (JReal 0),
                             get_default data ''conceded'' (JInt 0),
                             get_default data ''catches'' (JInt 0),
                             get_default data ''stumpings'' (JInt 0),
                             get_default data ''run_outs'' (JInt 0)] w2 of
                       (Inl ex, w3) \<Rightarrow> (Inl ex, w3)
                     | (Inr cursor, w3) \<Rightarrow>
                         (let w4 = conn_commit conn w3;
                              (conn', w5) = get_db_connection w4
                          in case conn_execute cv fault conn' SELECT_FROM_matches_WHERE_id
                                    [rowid_param (lastrowid cursor)] w5 of
                               (Inl ex, w6) \<Rightarrow> (Inl ex, w6)
                             | (Inr cur, w6) \<Rightarrow>
                                 (case fetchone cur of
                                    None \<Rightarrow> (Inl TypeError, w6)
                                  | Some new_match \<Rightarrow>
                                      (Inr (Response 201 (dict_of_row new_match)), w6))))))"

text \<open>\<^verbatim>\<open>PUT /matches/<int:match_id>\<close>\<close>

definition update_match ::
  "conversions \<Rightarrow> string option \<Rightarrow> nat \<Rightarrow> dict \<Rightarrow> world \<Rightarrow> outcome \<times> world" where
  "update_match cv fault mid data w0 =
     (let (conn, w1) = get_db_connection w0
      in except_finally conn
           (case conn_execute cv fault conn UPDATE_matches
                   [get data ''did_bat'', get data ''runs'', get data ''balls'',
                    get data ''wickets'', get data ''overs'', get data ''conceded'',
                    get data ''catches'', get data ''stumpings'', get data ''run_outs'',
                    JInt (int mid)] w1 of
              (Inl ex, w2) \<Rightarrow> (Inl ex, w2)
            | (Inr cursor, w2) \<Rightarrow>
                (let w3 = conn_commit conn w2
                 in if rowcount cursor = 0
                    then (Inr (Response 404 (message ''Match not found'')), w3)
                    else
                      (case conn_execute cv fault conn SELECT_FROM_matches_WHERE_id
                              [JInt (int mid)] w3 of
                         (Inl ex, w4) \<Rightarrow> (Inl ex, w4)
                       | (Inr cur, w4) \<Rightarrow>
                           (case fetchone cur of
                              None \<Rightarrow> (Inl TypeError, w4)
                            | Some updated_match \<Rightarrow>
                                (Inr (Response 200 (dict_of_row updated_match)), w4))))))"

text \<open>\<^verbatim>\<open>DELETE /matches/<int:match_id>\<close>\<close>

definition delete_match :: "conversions \<Rightarrow> string option \<Rightarrow> nat \<Rightarrow> world \<Rightarrow> outcome \<times> world" where
  "delete_match cv fault mid w0 =
     (let (conn, w1) = get_db_connection w0
      in except_finally conn
           (case conn_execute cv fault conn DELETE_FROM_matches [JInt (int mid)] w1 of
              (Inl ex, w2) \<Rightarrow> (Inl ex, w2)
            | (Inr cursor, w2) \<Rightarrow>
                (let w3 = conn_commit conn w2
                 in if rowcount cursor = 0
                    then (Inr (Response 404 (message ''Match not found'')), w3)
                    else (Inr (Response 204 (message ''Match deleted successfully'')), w3))))"

subsection \<open>Routing and the response on the wire\<close>

text \<open>
  The routes of the service.  The \<^verbatim>\<open>int\<close> converter of a route accepts the decimal
  digits of a natural number of any size.
\<close>

datatype request =
    POST_players dict
  | GET_players
  | GET_player nat
  | PUT_player nat dict
  | DELETE_player nat
  | POST_player_matches nat dict
  | PUT_match nat dict
  | DELETE_match nat

fun app :: "conversions \<Rightarrow> string option \<Rightarrow> request \<Rightarrow> world \<Rightarrow> outcome \<times> world" where
  "app cv fault (POST_players data) w = add_player cv fault data w"
| "app cv fault GET_players w = get_players cv w"
| "app cv fault (GET_player pid) w = get_player cv pid w"
| "app cv fault (PUT_player pid data) w = update_player cv fault pid data w"
| "app cv fault (DELETE_player pid) w = delete_player cv fault pid w"
| "app cv fault (POST_player_matches pid data) w = add_match_for_player cv fault pid data w"
| "app cv fault (PUT_match mid data) w = update_match cv fault mid data w"
| "app cv fault (DELETE_match mid) w = delete_match cv fault mid w"

text \<open>
  What the client receives.  The WSGI layer under Flask sends no body with the status
  codes 1xx, 204 and 304, whatever the view returned; an exception that left the view is
  answered with status 500 and the framework's error page.
\<close>

datatype body = No_body | Json_body json | Error_page

fun http_status :: "outcome \<Rightarrow> nat" where
  "http_status (Response code j) = code"
| "http_status (Unhandled ex) = 500"

fun http_body :: "outcome \<Rightarrow> body" where
  "http_body (Response code j) =
     (if (100 \<le> code \<and> code < 200) \<or> code = 204 \<or> code = 304 then No_body else Json_body j)"
| "http_body (Unhandled ex) = Error_page"

text \<open>A sequence of requests, each with its storage environment, served one after another.\<close>

fun serve ::
  "conversions \<Rightarrow> (string option \<times> request) list \<Rightarrow> world \<Rightarrow> outcome list \<times> world" where
  "serve cv [] w = ([], w)"
| "serve cv ((fault, req) # rest) w =
     (let (out, w1) = app cv fault req w;
          (outs, w2) = serve cv rest w1
      in (out # outs, w2))"


section \<open>Observations and examples\<close>

text \<open>
  The key a create request was answered with: the \<^verbatim>\<open>id\<close> of the record in a 201 response
  (\<^verbatim>\<open>id\<close> is the first column of both tables).
\<close>

fun created_id :: "outcome \<Rightarrow> int option" where
  "created_id (Response code (JObj ((k, JInt i) # kvs))) =
     (if code = 201 \<and> k = ''id'' then Some i else None)"
| "created_id out = None"

text \<open>The player keys, and the match keys, handed out during a sequence of requests, in order.\<close>

fun player_ids :: "(string option \<times> request) list \<Rightarrow> outcome list \<Rightarrow> int list" where
  "player_ids ((fault, POST_players data) # reqs) (out # outs) =
     (case created_id out of
        None \<Rightarrow> player_ids reqs outs
      | Some i \<Rightarrow> i # player_ids reqs outs)"
| "player_ids (req # reqs) (out # outs) = player_ids reqs outs"
| "player_ids reqs outs = []"

fun match_ids :: "(string option \<times> request) list \<Rightarrow> outcome list \<Rightarrow> int list" where
  "match_ids ((fault, POST_player_matches pid data) # reqs) (out # outs) =
     (case created_id out of
        None \<Rightarrow> match_ids reqs outs
      | Some i \<Rightarrow> i # match_ids reqs outs)"
| "match_ids (req # reqs) (out # outs) = match_ids reqs outs"
| "match_ids reqs outs = []"

text \<open>
  A store whose \<^verbatim>\<open>sqlite_sequence\<close> entries are not below the keys in the tables, as
  SQLite maintains them; the empty store is one.
\<close>

definition consistent :: "database \<Rightarrow> bool" where
  "consistent db \<longleftrightarrow>
     list_all (\<lambda>p. p_id p \<le> seq_players db) (players db) \<and>
     list_all (\<lambda>m. m_id m \<le> seq_matches db) (matches db) \<and>
     0 \<le> seq_players db \<and> 0 \<le> seq_matches db"

text \<open>The service between two requests, on a given store: nothing pending, nothing open.\<close>

definition at_rest :: "database \<Rightarrow> world" where
  "at_rest db =
     \<lparr>store = db, pending = Map.empty, next_handle = 0, open_connections = [], journal = []\<rparr>"

text \<open>
  The store of the specification's scenario after its first two requests: the player Rahul
  and one match of his with 50 runs off 40 balls.
\<close>

definition rahul :: player_row where
  "rahul = \<lparr>p_id = 1, name = SText ''Rahul'', role = SNull, batting_style = SNull,
            bowling_style = SNull\<rparr>"

definition rahul_match :: match_row where
  "rahul_match = \<lparr>m_id = 1, player_id = SInt 1, did_bat = SInt 0, runs = SInt 50,
                  balls = SInt 40, wickets = SInt 0, overs = SReal 0, conceded = SInt 0,
                  catches = SInt 0, stumpings = SInt 0, run_outs = SInt 0\<rparr>"

definition rahul_store :: database where
  "rahul_store = \<lparr>players = [rahul], matches = [rahul_match], seq_players = 1, seq_matches = 1\<rparr>"

text \<open>
  Conversions for the examples, which store no number as text and no text as a number:
  every number prints as the empty text and no text reads as a number.
\<close>

definition no_conversions :: conversions where
  "no_conversions = \<lparr>text_of_number = (\<lambda>v. []), number_of_text = (\<lambda>s. None)\<rparr>"

text \<open>Parameter tuples of the handlers, for the statements below.\<close>

abbreviation add_player_params :: "dict \<Rightarrow> json list" where
  "add_player_params data \<equiv>
     [get data ''name'', get data ''role'', get data ''batting_style'', get data ''bowling_style'']"

abbreviation update_player_params :: "dict \<Rightarrow> nat \<Rightarrow> json list" where
  "update_player_params data pid \<equiv>
     [get data ''name'', get data ''role'', get data ''batting_style'',
      get data ''bowling_style'', JInt (int pid)]"

abbreviation add_match_params :: "nat \<Rightarrow> dict \<Rightarrow> json list" where
  "add_match_params pid data \<equiv>
     [JInt (int pid),
      get_default data ''did_bat'' (JBool False),
      get_default data ''runs'' (JInt 0),
      get_default data ''balls'' (JInt 0),
      get_default data ''wickets'' (JInt 0),
      get_default data ''overs'' (JReal 0),
      get_default data ''conceded'' (JInt 0),
      get_default data ''catches'' (JInt 0),
      get_default data ''stumpings'' (JInt 0),
      get_default data ''run_outs'' (JInt 0)]"

abbreviation update_match_params :: "dict \<Rightarrow> nat \<Rightarrow> json list" where
  "update_match_params data mid \<equiv>
     [get data ''did_bat'', get data ''runs'', get data ''balls'',
      get data ''wickets'', get data ''overs'', get data ''conceded'',
      get data ''catches'', get data ''stumpings'', get data ''run_outs'',
      JInt (int mid)]"


section \<open>Evaluating the service\<close>

lemmas conn_defs = get_db_connection_def conn_execute_def conn_commit_def conn_rollback_def
  conn_close_def conn_view_def except_finally_def

lemmas statement_defs = run_statement_def insert_into_players_def select_from_players_def
  select_from_players_where_id_def select_id_from_players_where_id_def update_players_def
  delete_from_players_def insert_into_matches_def select_from_matches_where_player_id_def
  select_from_matches_where_id_def update_matches_def delete_from_matches_def
  new_rowid_def changed_def inserted_def selected_def fetchone_def fetchall_def

lemmas example_defs = at_rest_def empty_database_def rahul_def rahul_match_def rahul_store_def
  get_def get_default_def rowid_param_def player_columns_def match_columns_def dict_of_row_def

text \<open>
  The first two requests of the specification's scenario, \<^verbatim>\<open>POST /players {"name":"Rahul"}\<close>
  and \<^verbatim>\<open>POST /players/1/matches {"runs":50,"balls":40}\<close> on a new file, leave the store
  \<open>rahul_store\<close>.
\<close>

lemma scenario_store:
  "store (snd (serve cv
     [(None, POST_players [''name'' \<mapsto> JStr ''Rahul'']),
      (None, POST_player_matches 1 [''runs'' \<mapsto> JInt 50, ''balls'' \<mapsto> JInt 40])]
     (init_db None))) = rahul_store"
  by (simp add: add_player_def add_match_for_player_def init_db_def conn_defs statement_defs
        example_defs Let_def)

text \<open>
  On a connection that enforces foreign keys, deleting Rahul deletes his match too: the
  cascade is in the schema and in the model of the statement.
\<close>

lemma delete_cascades_when_enforced:
  "delete_from_players True [SInt 1] rahul_store =
     Inr (rahul_store\<lparr>players := [], matches := []\<rparr>, changed 1)"
  by (simp add: delete_from_players_def rahul_store_def rahul_def rahul_match_def)

text \<open>
  Claim C1 (cascade on \<^verbatim>\<open>DELETE /players/{id}\<close>).  The claim says that a successful delete
  of a player removes all of the player's matches.  The schema declares
  \<^verbatim>\<open>ON DELETE CASCADE\<close>, but \<^verbatim>\<open>get_db_connection\<close> never issues
  \<^verbatim>\<open>PRAGMA foreign_keys = ON\<close>, without which SQLite ignores foreign keys.  On the store
  of the scenario, \<^verbatim>\<open>DELETE /players/1\<close> answers 204, removes the player row, and leaves
  the match row whose \<^verbatim>\<open>player_id\<close> is 1 in the store.
\<close>

theorem delete_player_leaves_matches:
  "fst (delete_player cv None 1 (at_rest rahul_store)) =
     Response 204 (message ''Player deleted successfully'') \<and>
   players (store (snd (delete_player cv None 1 (at_rest rahul_store)))) = [] \<and>
   matches (store (snd (delete_player cv None 1 (at_rest rahul_store)))) = [rahul_match] \<and>
   player_id rahul_match = SInt 1"
  by (simp add: delete_player_def conn_defs statement_defs at_rest_def rahul_store_def
        rahul_def rahul_match_def Let_def)

text \<open>
  Claim C6 (every connection opened by a request is closed before the response).
  \<^verbatim>\<open>add_player\<close> and \<^verbatim>\<open>add_match_for_player\<close> read the new row back through a second
  \<^verbatim>\<open>get_db_connection()\<close> that nothing closes; \<^verbatim>\<open>finally\<close> closes only \<^verbatim>\<open>conn\<close>.
  After \<^verbatim>\<open>POST /players {"name":"Rahul"}\<close> on the empty store the response is 201 and
  the second connection (handle 1) is still open.
\<close>

theorem add_player_leaves_connection_open:
  "fst (add_player cv None [''name'' \<mapsto> JStr ''Rahul''] (at_rest empty_database)) =
     Response 201 (dict_of_row (player_columns rahul)) \<and>
   open_connections
     (snd (add_player cv None [''name'' \<mapsto> JStr ''Rahul''] (at_rest empty_database))) = [1]"
  by (simp add: add_player_def conn_defs statement_defs example_defs Let_def)


section \<open>Facts about the statements\<close>

lemma apply_affinity_SNull [simp]: "apply_affinity cv a SNull = SNull"
  by (cases a) simp_all

lemma filter_none_map:
  "filter P xs = [] \<Longrightarrow> map (\<lambda>x. if P x then f x else x) xs = xs"
  by (induction xs) (auto split: if_splits)

lemma filter_none_keep:
  "filter P xs = [] \<Longrightarrow> filter (\<lambda>x. \<not> P x) xs = xs"
  by (induction xs) (auto split: if_splits)

lemma filter_others_map:
  "(\<And>x. k (f x) = k x) \<Longrightarrow>
   filter (\<lambda>x. k x \<noteq> i) (map (\<lambda>x. if k x = i then f x else x) xs) = filter (\<lambda>x. k x \<noteq> i) xs"
  by (induction xs) auto

lemma length_filter_key:
  "map k xs = map k ys \<Longrightarrow>
   length (filter (\<lambda>x. k x = i) xs) = length (filter (\<lambda>x. k x = i) ys)"
proof (induction xs arbitrary: ys)
  case Nil
  then show ?case by simp
next
  case (Cons x xs)
  then obtain y ys' where "ys = y # ys'" by (cases ys) auto
  with Cons show ?case by auto
qed

lemma fetchone_selected:
  "fetchone (selected (map f xs)) = (case xs of [] \<Rightarrow> None | x # _ \<Rightarrow> Some (f x))"
  by (simp add: fetchone_def selected_def split: list.splits)

lemma run_select_player:
  "- (2 ^ 63) \<le> i \<and> i < 2 ^ 63 \<Longrightarrow>
   run_statement cv fault fk SELECT_FROM_players_WHERE_id [JInt i] db =
     Inr (db, selected (map player_columns (filter (\<lambda>p. p_id p = i) (players db))))"
  by (simp add: run_statement_def select_from_players_where_id_def)

lemma run_select_match:
  "- (2 ^ 63) \<le> i \<and> i < 2 ^ 63 \<Longrightarrow>
   run_statement cv fault fk SELECT_FROM_matches_WHERE_id [JInt i] db =
     Inr (db, selected (map match_columns (filter (\<lambda>m. m_id m = i) (matches db))))"
  by (simp add: run_statement_def select_from_matches_where_id_def)


lemma run_delete_players:
  assumes "run_statement cv fault False DELETE_FROM_players [JInt i] db = Inr (db', cur)"
  shows "rowcount cur = int (length (filter (\<lambda>p. p_id p = i) (players db)))"
    and "players db' = filter (\<lambda>p. p_id p \<noteq> i) (players db)"
    and "matches db' = matches db"
    and "seq_players db' = seq_players db"
    and "seq_matches db' = seq_matches db"
    and "- (2 ^ 63) \<le> i \<and> i < 2 ^ 63"
    and "rowcount cur = 0 \<Longrightarrow> db' = db"
  using assms
  by (auto simp: run_statement_def delete_from_players_def changed_def filter_none_keep
           split: sum.splits if_splits option.splits)

lemma run_update_matches:
  assumes "run_statement cv fault fk UPDATE_matches
             [a1, a2, a3, a4, a5, a6, a7, a8, a9, JInt i] db = Inr (db', cur)"
  shows "rowcount cur = int (length (filter (\<lambda>m. m_id m = i) (matches db)))"
    and "players db' = players db"
    and "seq_players db' = seq_players db"
    and "seq_matches db' = seq_matches db"
    and "map m_id (matches db') = map m_id (matches db)"
    and "map player_id (matches db') = map player_id (matches db)"
    and "filter (\<lambda>m. m_id m \<noteq> i) (matches db') = filter (\<lambda>m. m_id m \<noteq> i) (matches db)"
    and "- (2 ^ 63) \<le> i \<and> i < 2 ^ 63"
    and "rowcount cur = 0 \<Longrightarrow> db' = db"
  using assms
  by (auto simp: run_statement_def update_matches_def changed_def filter_none_map
                 filter_others_map
           split: sum.splits if_splits option.splits)

lemma run_delete_matches:
  assumes "run_statement cv fault fk DELETE_FROM_matches [JInt i] db = Inr (db', cur)"
  shows "rowcount cur = int (length (filter (\<lambda>m. m_id m = i) (matches db)))"
    and "matches db' = filter (\<lambda>m. m_id m \<noteq> i) (matches db)"
    and "players db' = players db"
    and "seq_players db' = seq_players db"
    and "seq_matches db' = seq_matches db"
    and "- (2 ^ 63) \<le> i \<and> i < 2 ^ 63"
    and "rowcount cur = 0 \<Longrightarrow> db' = db"
  using assms
  by (auto simp: run_statement_def delete_from_matches_def changed_def filter_none_keep
           split: sum.splits if_splits option.splits)


section \<open>Facts about the handlers\<close>

text \<open>
  Each handler, on each of its paths: the response, the committed store, what the journal
  gained and which connections stay open.  The path is named by the result of the
  handler's INSERT, UPDATE or DELETE on the committed store.
\<close>

lemma update_player_raises:
  assumes "run_statement cv fault False UPDATE_players (update_player_params data pid) (store w) = Inl ex"
  shows "fst (update_player cv fault pid data w) =
           (case ex of sqlite3_Error e \<Rightarrow> Response 500 (error e) | _ \<Rightarrow> Unhandled ex)"
    and "store (snd (update_player cv fault pid data w)) = store w"
    and "journal (snd (update_player cv fault pid data w)) =
           journal w @ Connect (next_handle w) # Execute (next_handle w) UPDATE_players #
             (case ex of sqlite3_Error e \<Rightarrow> [Rollback (next_handle w)] | _ \<Rightarrow> []) @
             [Close (next_handle w)]"
    and "open_connections (snd (update_player cv fault pid data w)) =
           removeAll (next_handle w) (open_connections w)"
  using assms by (cases ex; simp add: update_player_def conn_defs Let_def)+




lemma delete_player_done:
  assumes "run_statement cv fault False DELETE_FROM_players [JInt (int pid)] (store w) = Inr (db, cur)"
  shows "fst (delete_player cv fault pid w) =
           (if rowcount cur = 0 then Response 404 (message ''Player not found'')
            else Response 204 (message ''Player deleted successfully''))"
    and "store (snd (delete_player cv fault pid w)) = db"
    and "journal (snd (delete_player cv fault pid w)) =
           journal w @ [Connect (next_handle w), Execute (next_handle w) DELETE_FROM_players,
                        Commit (next_handle w), Close (next_handle w)]"
    and "open_connections (snd (delete_player cv fault pid w)) =
           removeAll (next_handle w) (open_connections w)"
  using assms by (simp_all add: delete_player_def conn_defs Let_def)

lemma update_match_raises:
  assumes "run_statement cv fault False UPDATE_matches (update_match_params data mid) (store w) = Inl ex"
  shows "fst (update_match cv fault mid data w) =
           (case ex of sqlite3_Error e \<Rightarrow> Response 500 (error e) | _ \<Rightarrow> Unhandled ex)"
    and "store (snd (update_match cv fault mid data w)) = store w"
    and "journal (snd (update_match cv fault mid data w)) =
           journal w @ Connect (next_handle w) # Execute (next_handle w) UPDATE_matches #
             (case ex of sqlite3_Error e \<Rightarrow> [Rollback (next_handle w)] | _ \<Rightarrow> []) @
             [Close (next_handle w)]"
    and "open_connections (snd (update_match cv fault mid data w)) =
           removeAll (next_handle w) (open_connections w)"
  using assms by (cases ex; simp add: update_match_def conn_defs Let_def)+

lemma update_match_zero:
  assumes "run_statement cv fault False UPDATE_matches (update_match_params data mid) (store w) = Inr (db, cur)"
      and "rowcount cur = 0"
  shows "fst (update_match cv fault mid data w) = Response 404 (message ''Match not found'')"
    and "store (snd (update_match cv fault mid data w)) = db"
    and "journal (snd (update_match cv fault mid data w)) =
           journal w @ [Connect (next_handle w), Execute (next_handle w) UPDATE_matches,
                        Commit (next_handle w), Close (next_handle w)]"
    and "open_connections (snd (update_match cv fault mid data w)) =
           removeAll (next_handle w) (open_connections w)"
  using assms by (simp_all add: update_match_def conn_defs Let_def)

lemma update_match_nonzero:
  assumes R: "run_statement cv fault False UPDATE_matches (update_match_params data mid) (store w) = Inr (db, cur)"
      and nz: "rowcount cur \<noteq> 0"
  shows "\<exists>r rs. filter (\<lambda>r. m_id r = int mid) (matches db) = r # rs \<and>
           fst (update_match cv fault mid data w) = Response 200 (dict_of_row (match_columns r))"
    and "store (snd (update_match cv fault mid data w)) = db"
    and "journal (snd (update_match cv fault mid data w)) =
           journal w @ [Connect (next_handle w), Execute (next_handle w) UPDATE_matches,
                        Commit (next_handle w), Execute (next_handle w) SELECT_FROM_matches_WHERE_id,
                        Close (next_handle w)]"
    and "open_connections (snd (update_match cv fault mid data w)) =
           removeAll (next_handle w) (open_connections w)"
proof -
  have range: "- (2 ^ 63) \<le> int mid \<and> int mid < 2 ^ 63"
    using run_update_matches(8) [OF R] .
  have "length (filter (\<lambda>r. m_id r = int mid) (matches db)) =
        length (filter (\<lambda>r. m_id r = int mid) (matches (store w)))"
    using run_update_matches(5) [OF R] by (rule length_filter_key)
  with nz run_update_matches(1) [OF R]
  obtain r rs where hit: "filter (\<lambda>r. m_id r = int mid) (matches db) = r # rs"
    by (cases "filter (\<lambda>r. m_id r = int mid) (matches db)") auto
  note unfolded = update_match_def conn_defs Let_def run_select_match [OF range] fetchone_selected
  have "fst (update_match cv fault mid data w) = Response 200 (dict_of_row (match_columns r))"
    using R nz hit by (simp add: unfolded)
  with hit show "\<exists>r rs. filter (\<lambda>r. m_id r = int mid) (matches db) = r # rs \<and>
           fst (update_match cv fault mid data w) = Response 200 (dict_of_row (match_columns r))"
    by blast
  show "store (snd (update_match cv fault mid data w)) = db"
    using R nz hit by (simp add: unfolded)
  show "journal (snd (update_match cv fault mid data w)) =
           journal w @ [Connect (next_handle w), Execute (next_handle w) UPDATE_matches,
                        Commit (next_handle w), Execute (next_handle w) SELECT_FROM_matches_WHERE_id,
                        Close (next_handle w)]"
    using R nz hit by (simp add: unfolded)
  show "open_connections (snd (update_match cv fault mid data w)) =
           removeAll (next_handle w) (open_connections w)"
    using R nz hit by (simp add: unfolded)
qed


lemma delete_match_done:
  assumes "run_statement cv fault False DELETE_FROM_matches [JInt (int mid)] (store w) = Inr (db, cur)"
  shows "fst (delete_match cv fault mid w) =
           (if rowcount cur = 0 then Response 404 (message ''Match not found'')
            else Response 204 (message ''Match deleted successfully''))"
    and "store (snd (delete_match cv fault mid w)) = db"
    and "journal (snd (delete_match cv fault mid w)) =
           journal w @ [Connect (next_handle w), Execute (next_handle w) DELETE_FROM_matches,
                        Commit (next_handle w), Close (next_handle w)]"
    and "open_connections (snd (delete_match cv fault mid w)) =
           removeAll (next_handle w) (open_connections w)"
  using assms by (simp_all add: delete_match_def conn_defs Let_def)


section \<open>The claims about updates and deletes\<close>

text \<open>
  Claim C9 (\<^verbatim>\<open>PUT /matches/{id}\<close> never changes a match's id or player_id).  Whatever
  the request body and whatever the outcome of the request, the handler leaves the
  \<^verbatim>\<open>id\<close> and the \<^verbatim>\<open>player_id\<close> of every match row as they were (row by row, in table
  order), leaves every match row with another id untouched, and leaves the players table
  untouched.  The UPDATE statement has no \<^verbatim>\<open>id\<close> or \<^verbatim>\<open>player_id\<close> in its SET list.
\<close>

theorem update_match_keeps_keys:
  "map m_id (matches (store (snd (update_match cv fault mid data w)))) =
     map m_id (matches (store w)) \<and>
   map player_id (matches (store (snd (update_match cv fault mid data w)))) =
     map player_id (matches (store w)) \<and>
   filter (\<lambda>m. m_id m \<noteq> int mid) (matches (store (snd (update_match cv fault mid data w)))) =
     filter (\<lambda>m. m_id m \<noteq> int mid) (matches (store w)) \<and>
   players (store (snd (update_match cv fault mid data w))) = players (store w)"
proof (cases "run_statement cv fault False UPDATE_matches (update_match_params data mid) (store w)")
  case (Inl ex)
  show ?thesis by (simp add: update_match_raises(2) [OF Inl])
next
  case (Inr r)
  then obtain db cur where R:
    "run_statement cv fault False UPDATE_matches (update_match_params data mid) (store w) = Inr (db, cur)"
    by (cases r) auto
  have "store (snd (update_match cv fault mid data w)) = db"
    using update_match_zero(2) [OF R] update_match_nonzero(2) [OF R] by blast
  then show ?thesis
    using run_update_matches(2,5,6,7) [OF R] by simp
qed

text \<open>An instance: the scenario's match keeps its keys when every field is overwritten.\<close>

lemma update_match_keeps_keys_example:
  "map (\<lambda>m. (m_id m, player_id m))
       (matches (store (snd (update_match cv None 1 Map.empty (at_rest rahul_store))))) =
     [(1, SInt 1)]"
  by (simp add: update_match_def conn_defs statement_defs example_defs Let_def)

lemma list_ex_filter: "list_ex P xs \<longleftrightarrow> filter P xs \<noteq> []"
  by (induction xs) auto

lemma run_delete_players_present:
  assumes "int pid < 2 ^ 63" and "list_ex (\<lambda>p. p_id p = int pid) (players db)"
  shows "\<exists>db' cur. run_statement cv None False DELETE_FROM_players [JInt (int pid)] db = Inr (db', cur) \<and>
           rowcount cur \<noteq> 0"
  using assms
  by (simp add: run_statement_def delete_from_players_def changed_def list_ex_filter)

lemma run_delete_matches_present:
  assumes "int mid < 2 ^ 63" and "list_ex (\<lambda>m. m_id m = int mid) (matches db)"
  shows "\<exists>db' cur. run_statement cv None False DELETE_FROM_matches [JInt (int mid)] db = Inr (db', cur) \<and>
           rowcount cur \<noteq> 0"
  using assms
  by (simp add: run_statement_def delete_from_matches_def changed_def list_ex_filter)

lemma delete_player_success:
  assumes "int pid < 2 ^ 63" and "list_ex (\<lambda>p. p_id p = int pid) (players (store w))"
  shows "http_status (fst (delete_player cv None pid w)) = 204 \<and>
         http_body (fst (delete_player cv None pid w)) = No_body \<and>
         \<not> list_ex (\<lambda>p. p_id p = int pid) (players (store (snd (delete_player cv None pid w))))"
proof -
  obtain db cur where
    R: "run_statement cv None False DELETE_FROM_players [JInt (int pid)] (store w) = Inr (db, cur)"
    and nz: "rowcount cur \<noteq> 0"
    using run_delete_players_present [OF assms] by blast
  show ?thesis
    using nz run_delete_players(2) [OF R]
    by (simp add: delete_player_done [OF R] list_ex_filter)
qed

lemma delete_match_success:
  assumes "int mid < 2 ^ 63" and "list_ex (\<lambda>m. m_id m = int mid) (matches (store w))"
  shows "http_status (fst (delete_match cv None mid w)) = 204 \<and>
         http_body (fst (delete_match cv None mid w)) = No_body \<and>
         \<not> list_ex (\<lambda>m. m_id m = int mid) (matches (store (snd (delete_match cv None mid w))))"
proof -
  obtain db cur where
    R: "run_statement cv None False DELETE_FROM_matches [JInt (int mid)] (store w) = Inr (db, cur)"
    and nz: "rowcount cur \<noteq> 0"
    using run_delete_matches_present [OF assms] by blast
  show ?thesis
    using nz run_delete_matches(2) [OF R]
    by (simp add: delete_match_done [OF R] list_ex_filter)
qed

text \<open>
  Claim C5 (a successful DELETE answers 204 with no body).  When the row to delete exists
  (its id is one the store can hold) and the storage does not fail, \<^verbatim>\<open>DELETE /players/{id}\<close>
  and \<^verbatim>\<open>DELETE /matches/{id}\<close> answer with status 204, the client receives no body, and
  the row is gone.  The handlers do pass a \<^verbatim>\<open>{message}\<close> object to \<^verbatim>\<open>jsonify\<close>; with
  status 204 the WSGI layer does not send it.
\<close>

theorem delete_success_no_body:
  "(int pid < 2 ^ 63 \<and> list_ex (\<lambda>p. p_id p = int pid) (players (store w)) \<longrightarrow>
      http_status (fst (delete_player cv None pid w)) = 204 \<and>
      http_body (fst (delete_player cv None pid w)) = No_body \<and>
      \<not> list_ex (\<lambda>p. p_id p = int pid) (players (store (snd (delete_player cv None pid w))))) \<and>
   (int mid < 2 ^ 63 \<and> list_ex (\<lambda>m. m_id m = int mid) (matches (store w)) \<longrightarrow>
      http_status (fst (delete_match cv None mid w)) = 204 \<and>
      http_body (fst (delete_match cv None mid w)) = No_body \<and>
      \<not> list_ex (\<lambda>m. m_id m = int mid) (matches (store (snd (delete_match cv None mid w)))))"
  using delete_player_success [of pid w cv] delete_match_success [of mid w cv] by blast

theorem delete_success_no_body_witness:
  "int (1::nat) < 2 ^ 63 \<and>
   list_ex (\<lambda>p. p_id p = int 1) (players (store (at_rest rahul_store))) \<and>
   list_ex (\<lambda>m. m_id m = int 1) (matches (store (at_rest rahul_store))) \<and>
   http_status (fst (delete_player no_conversions None 1 (at_rest rahul_store))) = 204 \<and>
   http_body (fst (delete_player no_conversions None 1 (at_rest rahul_store))) = No_body \<and>
   http_status (fst (delete_match no_conversions None 1 (at_rest rahul_store))) = 204 \<and>
   http_body (fst (delete_match no_conversions None 1 (at_rest rahul_store))) = No_body"
proof -
  have h: "int (1::nat) < 2 ^ 63"
    "list_ex (\<lambda>p. p_id p = int 1) (players (store (at_rest rahul_store)))"
    "list_ex (\<lambda>m. m_id m = int 1) (matches (store (at_rest rahul_store)))"
    by (simp_all add: example_defs)
  show ?thesis
    using h delete_success_no_body [of 1 "at_rest rahul_store" no_conversions 1] by blast
qed


section \<open>The claim about an update without a name\<close>

text \<open>Binding raises a \<^verbatim>\<open>sqlite3.Error\<close>, \<^verbatim>\<open>OverflowError\<close> or \<^verbatim>\<open>UnicodeEncodeError\<close>, nothing else.\<close>

lemma bind_param_raises:
  "bind_param i j = Inl ex \<Longrightarrow>
     ex = OverflowError \<or> ex = UnicodeEncodeError \<or> (\<exists>e. ex = sqlite3_Error e)"
  by (cases j) (auto split: if_splits)

lemma bind_parameters_raises:
  "bind_parameters i ps = Inl ex \<Longrightarrow>
     ex = OverflowError \<or> ex = UnicodeEncodeError \<or> (\<exists>e. ex = sqlite3_Error e)"
proof (induction ps arbitrary: i)
  case Nil
  then show ?case by simp
next
  case (Cons p ps)
  show ?case
  proof (cases "bind_param i p")
    case (Inl ex')
    with Cons.prems have "ex' = ex" by simp
    with Inl bind_param_raises show ?thesis by blast
  next
    case (Inr v)
    with Cons.prems have "bind_parameters (Suc i) ps = Inl ex"
      by (simp split: sum.splits)
    from Cons.IH [OF this] show ?thesis .
  qed
qed

lemma bind_error_caught:
  assumes "bind_parameters 0 ps = Inl ex"
      and "bind_parameters 0 ps \<noteq> Inl OverflowError"
      and "bind_parameters 0 ps \<noteq> Inl UnicodeEncodeError"
  shows "\<exists>e. ex = sqlite3_Error e"
  using bind_parameters_raises [OF assms(1)] assms by auto

lemma run_statement_bind_error:
  "bind_parameters 0 ps = Inl ex \<Longrightarrow> run_statement cv fault fk s ps db = Inl ex"
  by (simp add: run_statement_def)

lemma run_statement_fault:
  "bind_parameters 0 ps = Inr vs \<Longrightarrow> is_write s \<Longrightarrow>
   run_statement cv (Some e) fk s ps db = Inl (sqlite3_Error e)"
  by (simp add: run_statement_def)

lemma run_update_players_null_name_message:
  assumes present: "list_ex (\<lambda>p. p_id p = int pid) (players db)"
      and null: "get data ''name'' = JNull"
      and binds: "bind_parameters 0 (update_player_params data pid) = Inr vs"
  shows "run_statement cv None False UPDATE_players (update_player_params data pid) db =
           Inl (sqlite3_Error ''NOT NULL constraint failed: players.name'')"
  using assms
  by (auto simp: run_statement_def update_players_def split: sum.splits if_splits)

lemma run_update_players_null_name:
  assumes present: "list_ex (\<lambda>p. p_id p = int pid) (players db)"
      and null: "get data ''name'' = JNull"
      and no_overflow: "bind_parameters 0 (update_player_params data pid) \<noteq> Inl OverflowError"
      and no_surrogate: "bind_parameters 0 (update_player_params data pid) \<noteq> Inl UnicodeEncodeError"
  shows "\<exists>e. run_statement cv fault False UPDATE_players (update_player_params data pid) db =
               Inl (sqlite3_Error e)"
proof (cases "bind_parameters 0 (update_player_params data pid)")
  case (Inl ex)
  from bind_error_caught [OF Inl no_overflow no_surrogate]
  obtain e where "ex = sqlite3_Error e" by blast
  with run_statement_bind_error [OF Inl] show ?thesis by blast
next
  case (Inr vs)
  show ?thesis
  proof (cases fault)
    case None
    show ?thesis
      unfolding None
      using run_update_players_null_name_message [OF present null Inr] by blast
  next
    case (Some e)
    have "is_write UPDATE_players" by simp
    from run_statement_fault [OF Inr this] show ?thesis
      unfolding Some by blast
  qed
qed


text \<open>
  Claim C10, as stated, fails: with a body that omits \<^verbatim>\<open>name\<close> and gives \<^verbatim>\<open>role\<close> the
  integer \<open>2\<^sup>6\<^sup>3\<close>, binding the parameters raises \<^verbatim>\<open>OverflowError\<close>, which is not a
  \<^verbatim>\<open>sqlite3.Error\<close>: the exception leaves the handler and the client receives the
  framework's error page, not an \<^verbatim>\<open>{error}\<close> object.  A \<^verbatim>\<open>role\<close> with a lone surrogate
  does the same through \<^verbatim>\<open>UnicodeEncodeError\<close>.
\<close>

theorem update_player_without_name_counterexample:
  "list_ex (\<lambda>p. p_id p = int 1) (players (store (at_rest rahul_store))) \<and>
   get [''role'' \<mapsto> JInt (2 ^ 63)] ''name'' = JNull \<and>
   fst (update_player no_conversions None 1 [''role'' \<mapsto> JInt (2 ^ 63)] (at_rest rahul_store)) =
     Unhandled OverflowError \<and>
   http_body (fst (update_player no_conversions None 1 [''role'' \<mapsto> JInt (2 ^ 63)]
                     (at_rest rahul_store))) = Error_page \<and>
   fst (update_player no_conversions None 1 [''role'' \<mapsto> JSurrogates [55296]]
          (at_rest rahul_store)) = Unhandled UnicodeEncodeError"
  by (simp add: update_player_def conn_defs statement_defs example_defs Let_def)


text \<open>
  Claim C10, amended (\<^verbatim>\<open>PUT /players/{id}\<close> without a name, for an existing player).
  When the body omits \<^verbatim>\<open>name\<close> or gives it as null, and binding the request's values
  raises neither \<^verbatim>\<open>OverflowError\<close> (the id or a field is an integer outside the signed
  64-bit range) nor \<^verbatim>\<open>UnicodeEncodeError\<close> (a field is a string with a lone surrogate),
  the request fails with status 500 and an \<^verbatim>\<open>{error}\<close> body (never 400) and the store is
  unchanged.  When, moreover, all the values can be bound and the storage does not fail,
  the error is the violated \<^verbatim>\<open>NOT NULL\<close> constraint on \<^verbatim>\<open>players.name\<close>.
\<close>

theorem update_player_without_name:
  assumes present: "list_ex (\<lambda>p. p_id p = int pid) (players (store w))"
      and null: "get data ''name'' = JNull"
      and no_overflow: "bind_parameters 0 (update_player_params data pid) \<noteq> Inl OverflowError"
      and no_surrogate: "bind_parameters 0 (update_player_params data pid) \<noteq> Inl UnicodeEncodeError"
  shows "(\<exists>e. fst (update_player cv fault pid data w) = Response 500 (error e)) \<and>
         http_status (fst (update_player cv fault pid data w)) = 500 \<and>
         store (snd (update_player cv fault pid data w)) = store w \<and>
         (fault = None \<and> (\<exists>vs. bind_parameters 0 (update_player_params data pid) = Inr vs) \<longrightarrow>
            fst (update_player cv fault pid data w) =
              Response 500 (error ''NOT NULL constraint failed: players.name''))"
proof -
  obtain e where R:
    "run_statement cv fault False UPDATE_players (update_player_params data pid) (store w) =
       Inl (sqlite3_Error e)"
    using run_update_players_null_name [OF present null no_overflow no_surrogate] by blast
  have out: "fst (update_player cv fault pid data w) = Response 500 (error e)"
    using update_player_raises(1) [OF R] by simp
  have "fst (update_player cv fault pid data w) =
          Response 500 (error ''NOT NULL constraint failed: players.name'')"
    if none: "fault = None" and binds: "bind_parameters 0 (update_player_params data pid) = Inr vs"
    for vs
  proof -
    have "run_statement cv fault False UPDATE_players (update_player_params data pid) (store w) =
            Inl (sqlite3_Error ''NOT NULL constraint failed: players.name'')"
      unfolding none by (rule run_update_players_null_name_message [OF present null binds])
    from update_player_raises(1) [OF this] show ?thesis by simp
  qed
  with out update_player_raises(2) [OF R] show ?thesis by auto
qed


theorem update_player_without_name_witness:
  "list_ex (\<lambda>p. p_id p = int 1) (players (store (at_rest rahul_store))) \<and>
   get [''role'' \<mapsto> JStr ''batter''] ''name'' = JNull \<and>
   bind_parameters 0 (update_player_params [''role'' \<mapsto> JStr ''batter''] 1) =
     Inr [SNull, SText ''batter'', SNull, SNull, SInt 1] \<and>
   fst (update_player no_conversions None 1 [''role'' \<mapsto> JStr ''batter''] (at_rest rahul_store)) =
     Response 500 (error ''NOT NULL constraint failed: players.name'') \<and>
   http_status (fst (update_player no_conversions None 1 [''role'' \<mapsto> JStr ''batter'']
                       (at_rest rahul_store))) = 500 \<and>
   store (snd (update_player no_conversions None 1 [''role'' \<mapsto> JStr ''batter'']
                 (at_rest rahul_store))) = store (at_rest rahul_store)"
proof -
  have h: "list_ex (\<lambda>p. p_id p = int 1) (players (store (at_rest rahul_store)))"
    "get [''role'' \<mapsto> JStr ''batter''] ''name'' = JNull"
    by (simp_all add: example_defs)
  have b: "bind_parameters 0 (update_player_params [''role'' \<mapsto> JStr ''batter''] 1) =
     Inr [SNull, SText ''batter'', SNull, SNull, SInt 1]"
    by (simp add: get_def)
  have n: "bind_parameters 0 (update_player_params [''role'' \<mapsto> JStr ''batter''] 1) \<noteq> Inl OverflowError"
    "bind_parameters 0 (update_player_params [''role'' \<mapsto> JStr ''batter''] 1) \<noteq> Inl UnicodeEncodeError"
    unfolding b by simp_all
  show ?thesis
    using h b update_player_without_name [OF h n, of no_conversions None] by simp
qed


section \<open>Facts about the create handlers\<close>

lemma fold_max_ge: "(s::int) \<le> fold max xs s"
proof (induction xs arbitrary: s)
  case Nil
  show ?case by simp
next
  case (Cons x xs)
  have "s \<le> max x s" by simp
  also have "max x s \<le> fold max xs (max x s)" by (rule Cons.IH)
  finally show ?case by simp
qed

lemma fold_max_member: "x \<in> set xs \<Longrightarrow> (x::int) \<le> fold max xs s"
proof (induction xs arbitrary: s)
  case Nil
  then show ?case by simp
next
  case (Cons y ys)
  show ?case
  proof (cases "x = y")
    case True
    have "x \<le> max y s" using True by simp
    also have "max y s \<le> fold max ys (max y s)" by (rule fold_max_ge)
    finally show ?thesis by simp
  next
    case False
    with Cons.prems have "x \<in> set ys" by simp
    from Cons.IH [OF this] show ?thesis by simp
  qed
qed

lemma filter_new_key:
  assumes "k r = fold max (map k xs) s + (1::int)"
  shows "filter (\<lambda>x. k x = k r) (xs @ [r]) = [r]"
proof -
  have "k x \<noteq> k r" if "x \<in> set xs" for x
    using fold_max_member [of "k x" "map k xs" s] that assms by auto
  then have "filter (\<lambda>x. k x = k r) xs = []"
    by (simp add: filter_empty_conv)
  then show ?thesis by simp
qed

lemma run_select_id:
  "- (2 ^ 63) \<le> i \<and> i < 2 ^ 63 \<Longrightarrow>
   run_statement cv fault fk SELECT_id_FROM_players_WHERE_id [JInt i] db =
     Inr (db, selected (map (\<lambda>p. [(''id'', SInt (p_id p))])
                            (filter (\<lambda>p. p_id p = i) (players db))))"
  by (simp add: run_statement_def select_id_from_players_where_id_def)

text \<open>What a successful INSERT has done to the database.\<close>

lemma run_insert_matches:
  assumes "run_statement cv fault fk INSERT_INTO_matches
             [JInt p, a1, a2, a3, a4, a5, a6, a7, a8, a9] db = Inr (db', cur)"
  shows "\<exists>v1 v2 v3 v4 v5 v6 v7 v8 v9.
           bind_parameters (Suc 0) [a1, a2, a3, a4, a5, a6, a7, a8, a9] =
             Inr [v1, v2, v3, v4, v5, v6, v7, v8, v9] \<and>
           db' = db\<lparr>matches := matches db @
                      [\<lparr>m_id = fold max (map m_id (matches db)) (seq_matches db) + 1,
                        player_id = SInt p,
                        did_bat = apply_affinity cv A_NUMERIC v1,
                        runs = apply_affinity cv A_INTEGER v2,
                        balls = apply_affinity cv A_INTEGER v3,
                        wickets = apply_affinity cv A_INTEGER v4,
                        overs = apply_affinity cv A_REAL v5,
                        conceded = apply_affinity cv A_INTEGER v6,
                        catches = apply_affinity cv A_INTEGER v7,
                        stumpings = apply_affinity cv A_INTEGER v8,
                        run_outs = apply_affinity cv A_INTEGER v9\<rparr>],
                    seq_matches := fold max (map m_id (matches db)) (seq_matches db) + 1\<rparr> \<and>
           cur = inserted (fold max (map m_id (matches db)) (seq_matches db) + 1) \<and>
           fold max (map m_id (matches db)) (seq_matches db) + 1 < 2 ^ 63"
  using assms
  by (auto simp: run_statement_def insert_into_matches_def new_rowid_def Let_def
           split: sum.splits if_splits option.splits)

lemma run_insert_players:
  assumes "run_statement cv fault fk INSERT_INTO_players [a1, a2, a3, a4] db = Inr (db', cur)"
  shows "\<exists>v1 v2 v3 v4.
           bind_parameters 0 [a1, a2, a3, a4] = Inr [v1, v2, v3, v4] \<and>
           db' = db\<lparr>players := players db @
                      [\<lparr>p_id = fold max (map p_id (players db)) (seq_players db) + 1,
                        name = apply_affinity cv A_TEXT v1,
                        role = apply_affinity cv A_TEXT v2,
                        batting_style = apply_affinity cv A_TEXT v3,
                        bowling_style = apply_affinity cv A_TEXT v4\<rparr>],
                    seq_players := fold max (map p_id (players db)) (seq_players db) + 1\<rparr> \<and>
           cur = inserted (fold max (map p_id (players db)) (seq_players db) + 1) \<and>
           fold max (map p_id (players db)) (seq_players db) + 1 < 2 ^ 63"
  using assms
  by (auto simp: run_statement_def insert_into_players_def new_rowid_def Let_def
           split: sum.splits if_splits option.splits)


lemma run_select_below:
  assumes "i < - (2 ^ 63)"
  shows "run_statement cv fault fk SELECT_FROM_matches_WHERE_id [JInt i] db = Inl OverflowError"
    and "run_statement cv fault fk SELECT_FROM_players_WHERE_id [JInt i] db = Inl OverflowError"
  using assms by (simp_all add: run_statement_def)

text \<open>\<^verbatim>\<open>add_match_for_player\<close>, path by path.\<close>

lemma add_match_overflow:
  assumes "2 ^ 63 \<le> int pid"
  shows "fst (add_match_for_player cv fault pid data w) = Unhandled OverflowError"
    and "store (snd (add_match_for_player cv fault pid data w)) = store w"
    and "open_connections (snd (add_match_for_player cv fault pid data w)) =
           next_handle w # open_connections w"
  using assms
  by (simp_all add: add_match_for_player_def conn_defs Let_def run_statement_def)

lemma add_match_absent:
  assumes pid: "int pid < 2 ^ 63"
      and absent: "\<not> list_ex (\<lambda>p. p_id p = int pid) (players (store w))"
  shows "fst (add_match_for_player cv fault pid data w) =
           Response 404 (message ''Player not found'')"
    and "store (snd (add_match_for_player cv fault pid data w)) = store w"
    and "journal (snd (add_match_for_player cv fault pid data w)) =
           journal w @ [Connect (next_handle w),
                        Execute (next_handle w) SELECT_id_FROM_players_WHERE_id,
                        Close (next_handle w)]"
    and "open_connections (snd (add_match_for_player cv fault pid data w)) =
           removeAll (next_handle w) (open_connections w)"
proof -
  have range: "- (2 ^ 63) \<le> int pid \<and> int pid < 2 ^ 63"
    using pid by simp
  have none: "filter (\<lambda>p. p_id p = int pid) (players (store w)) = []"
    using absent by (simp add: list_ex_filter)
  note unfolded = add_match_for_player_def conn_defs Let_def run_select_id [OF range]
    fetchone_selected
  show "fst (add_match_for_player cv fault pid data w) =
           Response 404 (message ''Player not found'')"
    using none by (simp add: unfolded)
  show "store (snd (add_match_for_player cv fault pid data w)) = store w"
    using none by (simp add: unfolded)
  show "journal (snd (add_match_for_player cv fault pid data w)) =
           journal w @ [Connect (next_handle w),
                        Execute (next_handle w) SELECT_id_FROM_players_WHERE_id,
                        Close (next_handle w)]"
    using none by (simp add: unfolded)
  show "open_connections (snd (add_match_for_player cv fault pid data w)) =
           removeAll (next_handle w) (open_connections w)"
    using none by (simp add: unfolded)
qed

lemma add_match_raises:
  assumes pid: "int pid < 2 ^ 63"
      and present: "list_ex (\<lambda>p. p_id p = int pid) (players (store w))"
      and R: "run_statement cv fault False INSERT_INTO_matches (add_match_params pid data)
                (store w) = Inl ex"
  shows "fst (add_match_for_player cv fault pid data w) =
           (case ex of sqlite3_Error e \<Rightarrow> Response 500 (error e) | _ \<Rightarrow> Unhandled ex)"
    and "store (snd (add_match_for_player cv fault pid data w)) = store w"
    and "journal (snd (add_match_for_player cv fault pid data w)) =
           journal w @ Connect (next_handle w) #
             Execute (next_handle w) SELECT_id_FROM_players_WHERE_id #
             Execute (next_handle w) INSERT_INTO_matches #
             (case ex of sqlite3_Error e \<Rightarrow> [Rollback (next_handle w)] | _ \<Rightarrow> []) @
             [Close (next_handle w)]"
    and "open_connections (snd (add_match_for_player cv fault pid data w)) =
           removeAll (next_handle w) (open_connections w)"
proof -
  have range: "- (2 ^ 63) \<le> int pid \<and> int pid < 2 ^ 63"
    using pid by simp
  obtain p ps where hit: "filter (\<lambda>p. p_id p = int pid) (players (store w)) = p # ps"
    using present
    by (cases "filter (\<lambda>p. p_id p = int pid) (players (store w))") (auto simp: list_ex_filter)
  note unfolded = add_match_for_player_def conn_defs Let_def run_select_id [OF range]
    fetchone_selected
  show "fst (add_match_for_player cv fault pid data w) =
           (case ex of sqlite3_Error e \<Rightarrow> Response 500 (error e) | _ \<Rightarrow> Unhandled ex)"
    using R hit by (cases ex) (simp_all add: unfolded)
  show "store (snd (add_match_for_player cv fault pid data w)) = store w"
    using R hit by (cases ex) (simp_all add: unfolded)
  show "journal (snd (add_match_for_player cv fault pid data w)) =
           journal w @ Connect (next_handle w) #
             Execute (next_handle w) SELECT_id_FROM_players_WHERE_id #
             Execute (next_handle w) INSERT_INTO_matches #
             (case ex of sqlite3_Error e \<Rightarrow> [Rollback (next_handle w)] | _ \<Rightarrow> []) @
             [Close (next_handle w)]"
    using R hit by (cases ex) (simp_all add: unfolded)
  show "open_connections (snd (add_match_for_player cv fault pid data w)) =
           removeAll (next_handle w) (open_connections w)"
    using R hit by (cases ex) (simp_all add: unfolded)
qed

lemma add_match_inserted:
  assumes pid: "int pid < 2 ^ 63"
      and present: "list_ex (\<lambda>p. p_id p = int pid) (players (store w))"
      and R: "run_statement cv fault False INSERT_INTO_matches (add_match_params pid data)
                (store w) = Inr (db, cur)"
  shows "fst (add_match_for_player cv fault pid data w) =
           (if - (2 ^ 63) \<le> seq_matches db
            then Response 201 (dict_of_row (match_columns (last (matches db))))
            else Unhandled OverflowError)"
    and "store (snd (add_match_for_player cv fault pid data w)) = db"
    and "journal (snd (add_match_for_player cv fault pid data w)) =
           journal w @ [Connect (next_handle w),
                        Execute (next_handle w) SELECT_id_FROM_players_WHERE_id,
                        Execute (next_handle w) INSERT_INTO_matches,
                        Commit (next_handle w),
                        Connect (Suc (next_handle w)),
                        Execute (Suc (next_handle w)) SELECT_FROM_matches_WHERE_id,
                        Close (next_handle w)]"
    and "open_connections (snd (add_match_for_player cv fault pid data w)) =
           Suc (next_handle w) # removeAll (next_handle w) (open_connections w)"
proof -
  let ?rid = "fold max (map m_id (matches (store w))) (seq_matches (store w)) + 1"
  have range: "- (2 ^ 63) \<le> int pid \<and> int pid < 2 ^ 63"
    using pid by simp
  obtain p ps where hit: "filter (\<lambda>p. p_id p = int pid) (players (store w)) = p # ps"
    using present
    by (cases "filter (\<lambda>p. p_id p = int pid) (players (store w))") (auto simp: list_ex_filter)
  from run_insert_matches [OF R] obtain m where
    db: "matches db = matches (store w) @ [m]" and m: "m_id m = ?rid"
    and seq: "seq_matches db = ?rid" and cur: "lastrowid cur = Some ?rid" and hi: "?rid < 2 ^ 63"
    by (auto simp: inserted_def)
  have flt: "filter (\<lambda>x. m_id x = ?rid) (matches db) = [m]"
    using filter_new_key [of m_id m "matches (store w)" "seq_matches (store w)"] m db by simp
  have last: "last (matches db) = m"
    using db by simp
  note unfolded = add_match_for_player_def conn_defs Let_def run_select_id [OF range]
    fetchone_selected rowid_param_def
  have all: "fst (add_match_for_player cv fault pid data w) =
           (if - (2 ^ 63) \<le> seq_matches db
            then Response 201 (dict_of_row (match_columns (last (matches db))))
            else Unhandled OverflowError) \<and>
         store (snd (add_match_for_player cv fault pid data w)) = db \<and>
         journal (snd (add_match_for_player cv fault pid data w)) =
           journal w @ [Connect (next_handle w),
                        Execute (next_handle w) SELECT_id_FROM_players_WHERE_id,
                        Execute (next_handle w) INSERT_INTO_matches,
                        Commit (next_handle w),
                        Connect (Suc (next_handle w)),
                        Execute (Suc (next_handle w)) SELECT_FROM_matches_WHERE_id,
                        Close (next_handle w)] \<and>
         open_connections (snd (add_match_for_player cv fault pid data w)) =
           Suc (next_handle w) # removeAll (next_handle w) (open_connections w)"
  proof (cases "- (2 ^ 63) \<le> ?rid")
    case True
    with hi have rrange: "- (2 ^ 63) \<le> ?rid \<and> ?rid < 2 ^ 63" by simp
    show ?thesis
      using R hit cur flt True
      by (simp add: unfolded run_select_match [OF rrange] last seq)
  next
    case False
    then have below: "?rid < - (2 ^ 63)" by simp
    show ?thesis
      using R hit cur False
      by (simp add: unfolded seq run_select_below(1) [OF below])
  qed
  from all show "fst (add_match_for_player cv fault pid data w) =
           (if - (2 ^ 63) \<le> seq_matches db
            then Response 201 (dict_of_row (match_columns (last (matches db))))
            else Unhandled OverflowError)"
    by blast
  from all show "store (snd (add_match_for_player cv fault pid data w)) = db"
    by blast
  from all show "journal (snd (add_match_for_player cv fault pid data w)) =
           journal w @ [Connect (next_handle w),
                        Execute (next_handle w) SELECT_id_FROM_players_WHERE_id,
                        Execute (next_handle w) INSERT_INTO_matches,
                        Commit (next_handle w),
                        Connect (Suc (next_handle w)),
                        Execute (Suc (next_handle w)) SELECT_FROM_matches_WHERE_id,
                        Close (next_handle w)]"
    by blast
  from all show "open_connections (snd (add_match_for_player cv fault pid data w)) =
           Suc (next_handle w) # removeAll (next_handle w) (open_connections w)"
    by blast
qed


text \<open>\<^verbatim>\<open>add_player\<close>, path by path.\<close>

lemma add_player_invalid:
  assumes "\<not> truthy (get data ''name'')"
  shows "add_player cv fault data w = (Response 400 (error ''Player name is required''), w)"
  using assms by (simp add: add_player_def)

lemma add_player_raises:
  assumes valid: "truthy (get data ''name'')"
      and R: "run_statement cv fault False INSERT_INTO_players (add_player_params data)
                (store w) = Inl ex"
  shows "fst (add_player cv fault data w) =
           (case ex of sqlite3_Error e \<Rightarrow> Response 500 (error e) | _ \<Rightarrow> Unhandled ex)"
    and "store (snd (add_player cv fault data w)) = store w"
    and "journal (snd (add_player cv fault data w)) =
           journal w @ Connect (next_handle w) #
             Execute (next_handle w) INSERT_INTO_players #
             (case ex of sqlite3_Error e \<Rightarrow> [Rollback (next_handle w)] | _ \<Rightarrow> []) @
             [Close (next_handle w)]"
    and "open_connections (snd (add_player cv fault data w)) =
           removeAll (next_handle w) (open_connections w)"
  using assms by (cases ex; simp add: add_player_def conn_defs Let_def)+

lemma add_player_inserted:
  assumes valid: "truthy (get data ''name'')"
      and R: "run_statement cv fault False INSERT_INTO_players (add_player_params data)
                (store w) = Inr (db, cur)"
  shows "fst (add_player cv fault data w) =
           (if - (2 ^ 63) \<le> seq_players db
            then Response 201 (dict_of_row (player_columns (last (players db))))
            else Unhandled OverflowError)"
    and "store (snd (add_player cv fault data w)) = db"
    and "journal (snd (add_player cv fault data w)) =
           journal w @ [Connect (next_handle w),
                        Execute (next_handle w) INSERT_INTO_players,
                        Commit (next_handle w),
                        Connect (Suc (next_handle w)),
                        Execute (Suc (next_handle w)) SELECT_FROM_players_WHERE_id,
                        Close (next_handle w)]"
    and "open_connections (snd (add_player cv fault data w)) =
           Suc (next_handle w) # removeAll (next_handle w) (open_connections w)"
proof -
  let ?rid = "fold max (map p_id (players (store w))) (seq_players (store w)) + 1"
  from run_insert_players [OF R] obtain r where
    db: "players db = players (store w) @ [r]" and r: "p_id r = ?rid"
    and seq: "seq_players db = ?rid" and cur: "lastrowid cur = Some ?rid" and hi: "?rid < 2 ^ 63"
    by (auto simp: inserted_def)
  have flt: "filter (\<lambda>x. p_id x = ?rid) (players db) = [r]"
    using filter_new_key [of p_id r "players (store w)" "seq_players (store w)"] r db by simp
  have last: "last (players db) = r"
    using db by simp
  note unfolded = add_player_def conn_defs Let_def fetchone_selected rowid_param_def
  have all: "fst (add_player cv fault data w) =
           (if - (2 ^ 63) \<le> seq_players db
            then Response 201 (dict_of_row (player_columns (last (players db))))
            else Unhandled OverflowError) \<and>
         store (snd (add_player cv fault data w)) = db \<and>
         journal (snd (add_player cv fault data w)) =
           journal w @ [Connect (next_handle w),
                        Execute (next_handle w) INSERT_INTO_players,
                        Commit (next_handle w),
                        Connect (Suc (next_handle w)),
                        Execute (Suc (next_handle w)) SELECT_FROM_players_WHERE_id,
                        Close (next_handle w)] \<and>
         open_connections (snd (add_player cv fault data w)) =
           Suc (next_handle w) # removeAll (next_handle w) (open_connections w)"
  proof (cases "- (2 ^ 63) \<le> ?rid")
    case True
    with hi have rrange: "- (2 ^ 63) \<le> ?rid \<and> ?rid < 2 ^ 63" by simp
    show ?thesis
      using valid R cur flt True
      by (simp add: unfolded run_select_player [OF rrange] last seq)
  next
    case False
    then have below: "?rid < - (2 ^ 63)" by simp
    show ?thesis
      using valid R cur False
      by (simp add: unfolded seq run_select_below(2) [OF below])
  qed
  from all show "fst (add_player cv fault data w) =
           (if - (2 ^ 63) \<le> seq_players db
            then Response 201 (dict_of_row (player_columns (last (players db))))
            else Unhandled OverflowError)"
    by blast
  from all show "store (snd (add_player cv fault data w)) = db"
    by blast
  from all show "journal (snd (add_player cv fault data w)) =
           journal w @ [Connect (next_handle w),
                        Execute (next_handle w) INSERT_INTO_players,
                        Commit (next_handle w),
                        Connect (Suc (next_handle w)),
                        Execute (Suc (next_handle w)) SELECT_FROM_players_WHERE_id,
                        Close (next_handle w)]"
    by blast
  from all show "open_connections (snd (add_player cv fault data w)) =
           Suc (next_handle w) # removeAll (next_handle w) (open_connections w)"
    by blast
qed

section \<open>The claim about a match for a player that does not exist\<close>

lemma add_match_checks_first:
  "\<exists>rest. journal (snd (add_match_for_player cv fault pid data w)) =
     journal w @ Connect (next_handle w) #
       Execute (next_handle w) SELECT_id_FROM_players_WHERE_id # rest"
proof (cases "int pid < 2 ^ 63")
  case False
  then show ?thesis
    by (simp add: add_match_for_player_def conn_defs Let_def run_statement_def)
next
  case pid: True
  show ?thesis
  proof (cases "list_ex (\<lambda>p. p_id p = int pid) (players (store w))")
    case False
    show ?thesis by (simp add: add_match_absent(3) [OF pid False])
  next
    case present: True
    show ?thesis
    proof (cases "run_statement cv fault False INSERT_INTO_matches (add_match_params pid data)
                    (store w)")
      case (Inl ex)
      show ?thesis by (simp add: add_match_raises(3) [OF pid present Inl])
    next
      case (Inr r)
      then obtain db cur where R:
        "run_statement cv fault False INSERT_INTO_matches (add_match_params pid data) (store w) =
           Inr (db, cur)"
        by (cases r) auto
      show ?thesis by (simp add: add_match_inserted(3) [OF pid present R])
    qed
  qed
qed

text \<open>
  Claim C2, as stated, fails: the route accepts any natural number as the id, and for the
  id \<open>2\<^sup>6\<^sup>3\<close> binding it to the existence query raises \<^verbatim>\<open>OverflowError\<close>, outside any
  \<^verbatim>\<open>try\<close>.  No player has that id, and the response is the framework's 500 page, not 404.
\<close>

theorem add_match_absent_player_counterexample:
  "\<not> list_ex (\<lambda>p. p_id p = int (2 ^ 63)) (players (store (at_rest rahul_store))) \<and>
   fst (add_match_for_player no_conversions None (2 ^ 63) Map.empty (at_rest rahul_store)) =
     Unhandled OverflowError \<and>
   http_status (fst (add_match_for_player no_conversions None (2 ^ 63) Map.empty
                       (at_rest rahul_store))) = 500"
proof -
  have big: "(2::int) ^ 63 \<le> int (2 ^ 63)" by simp
  have out: "fst (add_match_for_player no_conversions None (2 ^ 63) Map.empty (at_rest rahul_store)) =
     Unhandled OverflowError"
    by (rule add_match_overflow(1) [OF big])
  have absent: "\<not> list_ex (\<lambda>p. p_id p = int (2 ^ 63)) (players (store (at_rest rahul_store)))"
    by (simp add: example_defs)
  show ?thesis
    unfolding out using absent by simp
qed

text \<open>
  Claim C2, amended (\<^verbatim>\<open>POST /players/{id}/matches\<close> for a player that does not exist).
  For every id that fits a signed 64-bit integer and is the id of no player, the response
  is 404 with a \<^verbatim>\<open>{message}\<close> body, the store is unchanged and the only statement
  executed is the existence query: no INSERT.  On every path of the handler the existence
  query is the first statement executed.
\<close>

theorem add_match_absent_player:
  assumes "int pid < 2 ^ 63"
      and "\<not> list_ex (\<lambda>p. p_id p = int pid) (players (store w))"
  shows "fst (add_match_for_player cv fault pid data w) =
           Response 404 (message ''Player not found'') \<and>
         store (snd (add_match_for_player cv fault pid data w)) = store w \<and>
         journal (snd (add_match_for_player cv fault pid data w)) =
           journal w @ [Connect (next_handle w),
                        Execute (next_handle w) SELECT_id_FROM_players_WHERE_id,
                        Close (next_handle w)] \<and>
         (\<forall>pid' data' w'. \<exists>rest.
            journal (snd (add_match_for_player cv fault pid' data' w')) =
              journal w' @ Connect (next_handle w') #
                Execute (next_handle w') SELECT_id_FROM_players_WHERE_id # rest)"
  using add_match_absent(1,2,3) [OF assms] add_match_checks_first by blast

theorem add_match_absent_player_witness:
  "int 7 < 2 ^ 63 \<and>
   \<not> list_ex (\<lambda>p. p_id p = int 7) (players (store (at_rest rahul_store))) \<and>
   fst (add_match_for_player no_conversions None 7 [''runs'' \<mapsto> JInt 50] (at_rest rahul_store)) =
     Response 404 (message ''Player not found'') \<and>
   store (snd (add_match_for_player no_conversions None 7 [''runs'' \<mapsto> JInt 50]
                 (at_rest rahul_store))) = rahul_store \<and>
   journal (snd (add_match_for_player no_conversions None 7 [''runs'' \<mapsto> JInt 50]
                   (at_rest rahul_store))) =
     [Connect 0, Execute 0 SELECT_id_FROM_players_WHERE_id, Close 0]"
proof -
  have h: "int 7 < 2 ^ 63"
    "\<not> list_ex (\<lambda>p. p_id p = int 7) (players (store (at_rest rahul_store)))"
    by (simp_all add: example_defs)
  have w: "store (at_rest rahul_store) = rahul_store" "journal (at_rest rahul_store) = []"
    "next_handle (at_rest rahul_store) = 0"
    by (simp_all add: at_rest_def)
  show ?thesis
    using h add_match_absent_player [OF h, of no_conversions None "[''runs'' \<mapsto> JInt 50]"]
    by (simp add: w)
qed


section \<open>Updates and deletes of present and absent rows\<close>











lemma rowcount_changed: "rowcount (changed k) = 0 \<longleftrightarrow> k = 0"
  by (simp add: changed_def)



















section \<open>The claim about updates and deletes of rows that do not exist\<close>





end
